theory Spec2Isabelle
  imports Main "HOL-Library.Sublist"
begin

section \<open>Constants (types.py, client.py)\<close>

definition HTTP401 :: int where "HTTP401 = 401"
definition HTTP400 :: int where "HTTP400 = 400"
definition HTTP429 :: int where "HTTP429 = 429"
definition HTTP500 :: int where "HTTP500 = 500"
definition REQUEST_TIMEOUT :: int where "REQUEST_TIMEOUT = 30"

definition DEFAULT_LIMIT :: int where "DEFAULT_LIMIT = 20"
definition MAX_LIMIT :: int where "MAX_LIMIT = 100"
definition MIN_LIMIT :: int where "MIN_LIMIT = 1"

definition DEFAULT_LANGUAGE :: string where "DEFAULT_LANGUAGE = ''en''"
definition LATEST_NEWS_ENDPOINT :: string where "LATEST_NEWS_ENDPOINT = ''/latest-news''"
definition SEARCH_ENDPOINT :: string where "SEARCH_ENDPOINT = ''/search''"
definition DEFAULT_BASE_URL :: string where
  "DEFAULT_BASE_URL = ''https://api.currentsapi.services/v1''"

text \<open>
  The entries of the dictionary \<open>ERROR_MESSAGES\<close> that the client reads, one constant per
  key. The two \<open>' '.join([...])\<close> messages are written out joined.
\<close>

definition ERROR_MESSAGES_invalid_api_key :: string where
  "ERROR_MESSAGES_invalid_api_key = ''Invalid API key provided''"
definition ERROR_MESSAGES_rate_limit_exceeded :: string where
  "ERROR_MESSAGES_rate_limit_exceeded = ''API rate limit exceeded. Please try again later.''"
definition ERROR_MESSAGES_invalid_parameters :: string where
  "ERROR_MESSAGES_invalid_parameters = ''Invalid request parameters provided''"
definition ERROR_MESSAGES_server_error :: string where
  "ERROR_MESSAGES_server_error = ''API server error. Please try again later.''"
definition ERROR_MESSAGES_connection_error :: string where
  "ERROR_MESSAGES_connection_error = ''Failed to connect to Currents API''"
definition ERROR_MESSAGES_invalid_response :: string where
  "ERROR_MESSAGES_invalid_response = ''Invalid response from API''"
definition ERROR_MESSAGES_invalid_language :: string where
  "ERROR_MESSAGES_invalid_language =
     ''Invalid language code. Supported: en, es, fr, de, it, pt, ru, ar, hi, zh, ja, ko, th, vi''"
definition ERROR_MESSAGES_invalid_category :: string where
  "ERROR_MESSAGES_invalid_category =
     ''Invalid category. Supported: world, politics, business, technology, sports, entertainment, health, science, regional, hardware, lifestyle, travel''"
definition ERROR_MESSAGES_limit_out_of_range :: string where
  "ERROR_MESSAGES_limit_out_of_range = ''Limit must be between 1 and 100''"

section \<open>JSON values\<close>

text \<open>
  What \<open>response.json()\<close> returns: Python's \<open>None\<close>, \<open>bool\<close>, \<open>int\<close>, \<open>float\<close> (kept as
  mantissa and decimal exponent; no claim computes with it), \<open>str\<close>, \<open>list\<close> and \<open>dict\<close>.
  A dict is an association list read with \<open>map_of\<close>.
\<close>

datatype json =
    JNull
  | JBool bool
  | JInt int
  | JFloat int int
  | JStr string
  | JArr "json list"
  | JObj "(string \<times> json) list"

section \<open>The exception family (exceptions.py)\<close>

text \<open>
  One record for an instance of \<open>CurrentsAPIError\<close> or of a subclass; \<open>kind\<close> is the class.
  \<open>retry_after\<close> and \<open>field\<close> are attributes of \<open>CurrentsRateLimitError\<close> and
  \<open>CurrentsValidationError\<close> only; they are \<open>None\<close> in the other classes, which do not
  have them. Each constructor below is the \<open>__init__\<close> of its class, with the call of
  \<open>super().__init__\<close> written as the base constructor.
\<close>

datatype error_kind =
    APIError
  | AuthenticationError
  | RateLimitError
  | ValidationError
  | ServerError
  | ConnectionError
  | ResponseError

record currents_error =
  kind :: error_kind
  message :: string
  status_code :: "int option"
  response_data :: "(string \<times> json) list"
  retry_after :: "int option"
  field :: "string option"

definition CurrentsAPIError :: "string \<Rightarrow> int option \<Rightarrow> currents_error" where
  "CurrentsAPIError msg sc =
     \<lparr>kind = APIError, message = msg, status_code = sc, response_data = [],
      retry_after = None, field = None\<rparr>"

definition CurrentsAuthenticationError :: "string \<Rightarrow> currents_error" where
  "CurrentsAuthenticationError msg =
     (CurrentsAPIError msg (Some HTTP401))\<lparr>kind := AuthenticationError\<rparr>"

definition CurrentsRateLimitError :: "string \<Rightarrow> int option \<Rightarrow> currents_error" where
  "CurrentsRateLimitError msg ra =
     (CurrentsAPIError msg (Some HTTP429))\<lparr>kind := RateLimitError, retry_after := ra\<rparr>"

definition CurrentsValidationError :: "string \<Rightarrow> string option \<Rightarrow> currents_error" where
  "CurrentsValidationError msg fld =
     (CurrentsAPIError msg (Some HTTP400))\<lparr>kind := ValidationError, field := fld\<rparr>"

definition CurrentsServerError :: "string \<Rightarrow> currents_error" where
  "CurrentsServerError msg = (CurrentsAPIError msg (Some HTTP500))\<lparr>kind := ServerError\<rparr>"

definition CurrentsConnectionError :: "string \<Rightarrow> currents_error" where
  "CurrentsConnectionError msg = (CurrentsAPIError msg None)\<lparr>kind := ConnectionError\<rparr>"

definition CurrentsResponseError :: "string \<Rightarrow> currents_error" where
  "CurrentsResponseError msg = (CurrentsAPIError msg None)\<lparr>kind := ResponseError\<rparr>"

section \<open>Python built-ins the client calls\<close>

text \<open>
  Strings are lists of 8-bit characters, so a Python string is modelled up to code point
  255 (header values are Latin-1 decoded, so this is all of them). \<open>py_isspace\<close> lists the
  code points below 256 that \<open>str.isspace\<close> and \<open>str.strip()\<close> treat as white space: TAB
  to CR, FS to US, space, NEL and the no-break space.
\<close>

definition py_isspace :: "char \<Rightarrow> bool" where
  "py_isspace c =
     ((of_char c :: nat) \<in> {9, 10, 11, 12, 13, 28, 29, 30, 31, 32, 133, 160})"

definition py_strip :: "string \<Rightarrow> string" where
  "py_strip s = rev (dropWhile py_isspace (rev (dropWhile py_isspace s)))"

text \<open>
  \<open>int()\<close> strips less than \<open>str.strip()\<close>: the ASCII white space TAB to CR and space, and
  the two white-space code points above 127, NEL and the no-break space. FS to US are not
  stripped, so \<open>int\<close> rejects a string that starts or ends with one of them.
\<close>

definition int_isspace :: "char \<Rightarrow> bool" where
  "int_isspace c = ((of_char c :: nat) \<in> {9, 10, 11, 12, 13, 32, 133, 160})"

definition int_strip :: "string \<Rightarrow> string" where
  "int_strip s = rev (dropWhile int_isspace (rev (dropWhile int_isspace s)))"

text \<open>\<open>s.rstrip('/')\<close>: drop every trailing slash.\<close>

definition rstrip_slash :: "string \<Rightarrow> string" where
  "rstrip_slash s = rev (dropWhile (\<lambda>c. c = CHR ''/'') (rev s))"

section \<open>Parameter validation (\<open>_ParameterValidator\<close>)\<close>

definition valid_languages :: "string list" where
  "valid_languages =
     [''en'', ''es'', ''fr'', ''de'', ''it'', ''pt'', ''ru'', ''ar'', ''hi'', ''zh'', ''ja'',
      ''ko'', ''th'', ''vi'']"

definition valid_categories :: "string list" where
  "valid_categories =
     [''world'', ''politics'', ''business'', ''technology'', ''sports'', ''entertainment'',
      ''health'', ''science'', ''regional'', ''hardware'', ''lifestyle'', ''travel'']"

text \<open>
  A validator returns \<open>Inl e\<close> where the method raises \<open>e\<close> and \<open>Inr ()\<close> where it returns.
  The two messages passed through \<open>.format(...)\<close> hold no replacement field, so \<open>format\<close>
  returns them unchanged.
\<close>

definition validate_language :: "string \<Rightarrow> currents_error + unit" where
  "validate_language language =
     (if language \<notin> set valid_languages
      then Inl (CurrentsValidationError ERROR_MESSAGES_invalid_language None)
      else Inr ())"

definition validate_limit :: "int \<Rightarrow> currents_error + unit" where
  "validate_limit limit =
     (if limit < MIN_LIMIT \<or> limit > MAX_LIMIT
      then Inl (CurrentsValidationError ERROR_MESSAGES_limit_out_of_range None)
      else Inr ())"

definition validate_category :: "string \<Rightarrow> currents_error + unit" where
  "validate_category category =
     (if category \<notin> set valid_categories
      then Inl (CurrentsValidationError ERROR_MESSAGES_invalid_category None)
      else Inr ())"

definition validate_keywords :: "string \<Rightarrow> currents_error + unit" where
  "validate_keywords keywords =
     (if keywords = [] \<or> py_strip keywords = []
      then Inl (CurrentsValidationError ERROR_MESSAGES_invalid_parameters None)
      else Inr ())"

text \<open>
  \<open>category\<close> is \<open>Optional[str]\<close>; \<open>if category:\<close> skips the check for \<open>None\<close> and for the
  empty string.
\<close>

definition validate_params :: "string \<Rightarrow> int \<Rightarrow> string option \<Rightarrow> currents_error + unit" where
  "validate_params language limit category =
     (case validate_language language of
        Inl e \<Rightarrow> Inl e
      | Inr _ \<Rightarrow>
          (case validate_limit limit of
             Inl e \<Rightarrow> Inl e
           | Inr _ \<Rightarrow>
               (case category of
                  None \<Rightarrow> Inr ()
                | Some cat \<Rightarrow> if cat = [] then Inr () else validate_category cat)))"

section \<open>Integer conversions\<close>

text \<open>
  \<open>int(s)\<close> for a string, base 10: white space (\<open>int_isspace\<close>) is stripped at both
  ends, one sign may lead, and the rest is decimal digits in which single underscores may
  stand between two digits. \<open>None\<close> is the \<open>ValueError\<close> that \<open>int\<close> raises otherwise; CPython also raises it
  for more than 4300 digits (the default limit of integer string conversion).
\<close>

definition is_digit :: "char \<Rightarrow> bool" where
  "is_digit c = (48 \<le> (of_char c :: nat) \<and> (of_char c :: nat) \<le> 57)"

definition digit_val :: "char \<Rightarrow> int" where
  "digit_val c = int (of_char c) - 48"

fun int_digits :: "string \<Rightarrow> string option" where
  "int_digits [] = None"
| "int_digits [c] = (if is_digit c then Some [c] else None)"
| "int_digits (c # d # r) =
     (if \<not> is_digit c then None
      else if d = CHR ''_'' then map_option (Cons c) (int_digits r)
      else map_option (Cons c) (int_digits (d # r)))"

definition decimal_value :: "string \<Rightarrow> int" where
  "decimal_value ds = foldl (\<lambda>a c. 10 * a + digit_val c) 0 ds"

definition py_int :: "string \<Rightarrow> int option" where
  "py_int s =
     (let t = int_strip s;
          neg = (t \<noteq> [] \<and> hd t = CHR ''-'');
          body = (if t \<noteq> [] \<and> (hd t = CHR ''-'' \<or> hd t = CHR ''+'') then tl t else t)
      in case int_digits body of
           None \<Rightarrow> None
         | Some ds \<Rightarrow>
             if length ds > 4300 then None
             else Some (if neg then - decimal_value ds else decimal_value ds))"

text \<open>\<open>'{0}'.format(n)\<close> for an int: the decimal digits, with a leading minus sign.\<close>

function nat_digits :: "nat \<Rightarrow> string" where
  "nat_digits n =
     (if n < 10 then [char_of (48 + n)]
      else nat_digits (n div 10) @ [char_of (48 + n mod 10)])"
  by pat_completeness auto
termination
  by (relation "measure id") auto

declare nat_digits.simps [simp del]

definition py_str_int :: "int \<Rightarrow> string" where
  "py_str_int i = (if i < 0 then CHR ''-'' # nat_digits (nat (- i)) else nat_digits (nat i))"

section \<open>HTTP responses and the error classifier (\<open>_ErrorRaiser\<close>, \<open>_HTTPErrorHandler\<close>)\<close>

text \<open>
  What the client reads of a \<open>requests.Response\<close>: the status code, the reason phrase, the
  headers (\<open>headers.get\<close> is the map's lookup) and the outcome of \<open>response.json()\<close>, which
  is \<open>None\<close> where the body is not JSON and \<open>json()\<close> raises \<open>ValueError\<close>.
\<close>

record response =
  resp_status_code :: int
  resp_reason :: string
  resp_headers :: "string \<Rightarrow> string option"
  resp_json :: "json option"

definition raise_auth_error :: "currents_error + unit" where
  "raise_auth_error = Inl (CurrentsAuthenticationError ERROR_MESSAGES_invalid_api_key)"

definition raise_validation_error :: "currents_error + unit" where
  "raise_validation_error = Inl (CurrentsValidationError ERROR_MESSAGES_invalid_parameters None)"

definition raise_server_error :: "currents_error + unit" where
  "raise_server_error = Inl (CurrentsServerError ERROR_MESSAGES_server_error)"

definition raise_generic_error :: "int \<Rightarrow> response \<Rightarrow> currents_error + unit" where
  "raise_generic_error code r =
     Inl (CurrentsAPIError (''HTTP '' @ py_str_int code @ '': '' @ resp_reason r) None)"

definition handle_rate_limit_error :: "response \<Rightarrow> currents_error + unit" where
  "handle_rate_limit_error r =
     (let retry_after_str = resp_headers r ''Retry-After'';
          retry_after =
            (case retry_after_str of
               None \<Rightarrow> None
             | Some s \<Rightarrow>
                 if s = [] then None
                 else (case py_int s of None \<Rightarrow> None | Some n \<Rightarrow> Some n))
      in Inl (CurrentsRateLimitError ERROR_MESSAGES_rate_limit_exceeded retry_after))"

definition handle_http_error :: "int \<Rightarrow> response \<Rightarrow> currents_error + unit" where
  "handle_http_error code r =
     (if code = HTTP401 then raise_auth_error
      else if code = HTTP429 then handle_rate_limit_error r
      else if code = HTTP400 then raise_validation_error
      else if code \<ge> HTTP500 then raise_server_error
      else raise_generic_error code r)"

definition parse_response_json :: "response \<Rightarrow> currents_error + json" where
  "parse_response_json r =
     (case resp_json r of
        None \<Rightarrow> Inl (CurrentsResponseError (ERROR_MESSAGES_invalid_response @ '': Invalid JSON''))
      | Some v \<Rightarrow> Inr v)"

text \<open>
  \<open>response.raise_for_status()\<close> raises \<open>HTTPError\<close> exactly for a status from 400 to 599.
\<close>

definition raise_for_status :: "response \<Rightarrow> bool" where
  "raise_for_status r = (400 \<le> resp_status_code r \<and> resp_status_code r < 600)"

definition handle_response :: "response \<Rightarrow> currents_error + (string \<times> json) list" where
  "handle_response r =
     (case (if raise_for_status r then handle_http_error (resp_status_code r) r else Inr ()) of
        Inl e \<Rightarrow> Inl e
      | Inr _ \<Rightarrow>
          (case parse_response_json r of
             Inl e \<Rightarrow> Inl e
           | Inr parsed \<Rightarrow>
               (case parsed of
                  JObj d \<Rightarrow> Inr d
                | _ \<Rightarrow> Inl (CurrentsResponseError ERROR_MESSAGES_invalid_response))))"

section \<open>Transport (\<open>HTTPClient\<close>)\<close>

datatype param = PStr string | PInt int

type_synonym params = "(string \<times> param) list"

record http_client =
  base_url :: string
  session_params :: params
  max_retries :: int
  retry_delay :: int

definition HTTPClient_init :: "string \<Rightarrow> string \<Rightarrow> http_client" where
  "HTTPClient_init api_key url =
     \<lparr>base_url = rstrip_slash url, session_params = [(''apiKey'', PStr api_key)],
      max_retries = 3, retry_delay = 1\<rparr>"

text \<open>
  One call of \<open>session.get\<close>: the URL, the session's own parameters, the parameters of the
  request and the timeout. The world is one trace of events, in the order they happen: a
  call of \<open>session.get\<close> with its arguments, or a call of \<open>time.sleep\<close> with its argument.
  The network is a parameter: it decides, from everything that happened before a call and
  from the call's arguments, whether \<open>get\<close> raises \<open>RequestException\<close> or returns a
  response.
\<close>

record get_call =
  call_url :: string
  call_session_params :: params
  call_params :: "params option"
  call_timeout :: int

datatype net_result = RequestException | Response response

datatype event = Get get_call | Sleep int

type_synonym network = "event list \<Rightarrow> get_call \<Rightarrow> net_result"

record world =
  trace :: "event list"

definition session_get :: "network \<Rightarrow> get_call \<Rightarrow> world \<Rightarrow> net_result \<times> world" where
  "session_get net c w = (net (trace w) c, w\<lparr>trace := trace w @ [Get c]\<rparr>)"

definition time_sleep :: "int \<Rightarrow> world \<Rightarrow> world" where
  "time_sleep secs w = w\<lparr>trace := trace w @ [Sleep secs]\<rparr>"

text \<open>
  The body of \<open>for attempt in range(self.max_retries)\<close>, over the attempts still to run;
  the empty list is the \<open>raise\<close> after the loop.
\<close>

fun request_loop ::
  "http_client \<Rightarrow> network \<Rightarrow> get_call \<Rightarrow> nat list \<Rightarrow> world \<Rightarrow>
     (currents_error + (string \<times> json) list) \<times> world" where
  "request_loop c net g [] w = (Inl (CurrentsConnectionError ERROR_MESSAGES_connection_error), w)"
| "request_loop c net g (attempt # rest) w =
     (case session_get net g w of
        (RequestException, w1) \<Rightarrow>
          if int attempt = max_retries c - 1
          then (Inl (CurrentsConnectionError ERROR_MESSAGES_connection_error), w1)
          else request_loop c net g rest (time_sleep (retry_delay c * 2 ^ attempt) w1)
      | (Response r, w1) \<Rightarrow> (handle_response r, w1))"

definition request ::
  "http_client \<Rightarrow> network \<Rightarrow> string \<Rightarrow> params option \<Rightarrow> world \<Rightarrow>
     (currents_error + (string \<times> json) list) \<times> world" where
  "request c net endpoint request_params w =
     (let url = base_url c @ endpoint
      in request_loop c net
           \<lparr>call_url = url, call_session_params = session_params c,
            call_params = request_params, call_timeout = REQUEST_TIMEOUT\<rparr>
           [0 ..< nat (max_retries c)] w)"

section \<open>Response models (models.py)\<close>

text \<open>
  \<open>NewsArticle\<close> and \<open>NewsResponse\<close> are declared with the schema library pydantic, which
  is not part of the repository. The library's validators of the three primitive field
  types are a parameter of the model: each takes the JSON value of a field and returns
  the field's value, or \<open>None\<close> where the library rejects it. What the declarations fix is
  modelled here: which fields are required (\<open>Field(...)\<close>), which default to \<open>None\<close> or to
  the empty list, and that the library validates every field, collects the errors with
  the location of each, and raises one \<open>ValidationError\<close> holding them all.
\<close>

record datetime =
  dt_year :: int
  dt_month :: int
  dt_day :: int
  dt_hour :: int
  dt_minute :: int
  dt_second :: int
  dt_utcoffset_minutes :: int

record pydantic =
  str_validate :: "json \<Rightarrow> string option"
  http_url_validate :: "json \<Rightarrow> string option"
  datetime_validate :: "json \<Rightarrow> datetime option"

datatype loc_item = Key string | Index nat

datatype error_type = Missing | Invalid

type_synonym error_item = "loc_item list \<times> error_type"

type_synonym 'a validated = "error_item list + 'a"

text \<open>
  \<open>ap\<close> applies a validated constructor to a validated field and keeps the errors of both;
  \<open>at_loc\<close> puts the errors of a nested value under the key or index it stands at.
\<close>

fun ap :: "('a \<Rightarrow> 'b) validated \<Rightarrow> 'a validated \<Rightarrow> 'b validated" where
  "ap (Inr f) (Inr a) = Inr (f a)"
| "ap (Inl es) (Inr a) = Inl es"
| "ap (Inr f) (Inl es) = Inl es"
| "ap (Inl es) (Inl es') = Inl (es @ es')"

definition at_loc :: "loc_item \<Rightarrow> 'a validated \<Rightarrow> 'a validated" where
  "at_loc k r = (case r of Inl es \<Rightarrow> Inl (map (\<lambda>(loc, t). (k # loc, t)) es) | Inr a \<Rightarrow> Inr a)"

definition prim :: "(json \<Rightarrow> 'a option) \<Rightarrow> json \<Rightarrow> 'a validated" where
  "prim p j = (case p j of None \<Rightarrow> Inl [([], Invalid)] | Some a \<Rightarrow> Inr a)"

definition required :: "(json \<Rightarrow> 'a validated) \<Rightarrow> (string \<times> json) list \<Rightarrow> string \<Rightarrow> 'a validated" where
  "required v d name =
     (case map_of d name of
        None \<Rightarrow> Inl [([Key name], Missing)]
      | Some j \<Rightarrow> at_loc (Key name) (v j))"

definition optional ::
  "(json \<Rightarrow> 'a validated) \<Rightarrow> (string \<times> json) list \<Rightarrow> string \<Rightarrow> 'a option validated" where
  "optional v d name =
     (case map_of d name of
        None \<Rightarrow> Inr None
      | Some JNull \<Rightarrow> Inr None
      | Some j \<Rightarrow> at_loc (Key name) (ap (Inr Some) (v j)))"

definition with_default ::
  "'a \<Rightarrow> (json \<Rightarrow> 'a validated) \<Rightarrow> (string \<times> json) list \<Rightarrow> string \<Rightarrow> 'a validated" where
  "with_default dflt v d name =
     (case map_of d name of
        None \<Rightarrow> Inr dflt
      | Some j \<Rightarrow> at_loc (Key name) (v j))"

fun validate_items :: "(json \<Rightarrow> 'a validated) \<Rightarrow> nat \<Rightarrow> json list \<Rightarrow> 'a list validated" where
  "validate_items v i [] = Inr []"
| "validate_items v i (x # xs) =
     ap (ap (Inr Cons) (at_loc (Index i) (v x))) (validate_items v (Suc i) xs)"

definition list_of :: "(json \<Rightarrow> 'a validated) \<Rightarrow> json \<Rightarrow> 'a list validated" where
  "list_of v j = (case j of JArr xs \<Rightarrow> validate_items v 0 xs | _ \<Rightarrow> Inl [([], Invalid)])"

record NewsArticle =
  article_id :: string
  article_title :: string
  article_description :: string
  article_url :: string
  article_author :: "string option"
  article_image :: "string option"
  article_language :: string
  article_category :: "string list"
  article_published :: datetime

definition NewsArticle_make ::
  "string \<Rightarrow> string \<Rightarrow> string \<Rightarrow> string \<Rightarrow> string option \<Rightarrow> string option \<Rightarrow> string \<Rightarrow>
     string list \<Rightarrow> datetime \<Rightarrow> NewsArticle" where
  "NewsArticle_make i t d u a im l c p =
     \<lparr>article_id = i, article_title = t, article_description = d, article_url = u,
      article_author = a, article_image = im, article_language = l, article_category = c,
      article_published = p\<rparr>"

text \<open>The fields of \<open>NewsArticle\<close>, in the order of their declaration.\<close>

definition NewsArticle_init :: "pydantic \<Rightarrow> (string \<times> json) list \<Rightarrow> NewsArticle validated" where
  "NewsArticle_init P d =
     ap (ap (ap (ap (ap (ap (ap (ap (ap (Inr NewsArticle_make)
       (required (prim (str_validate P)) d ''id''))
       (required (prim (str_validate P)) d ''title''))
       (required (prim (str_validate P)) d ''description''))
       (required (prim (http_url_validate P)) d ''url''))
       (optional (prim (str_validate P)) d ''author''))
       (optional (prim (str_validate P)) d ''image''))
       (required (prim (str_validate P)) d ''language''))
       (with_default [] (list_of (prim (str_validate P))) d ''category''))
       (required (prim (datetime_validate P)) d ''published'')"

definition NewsArticle_of :: "pydantic \<Rightarrow> json \<Rightarrow> NewsArticle validated" where
  "NewsArticle_of P j = (case j of JObj d \<Rightarrow> NewsArticle_init P d | _ \<Rightarrow> Inl [([], Invalid)])"

record NewsResponse =
  status :: string
  news :: "NewsArticle list"

definition NewsResponse_make :: "string \<Rightarrow> NewsArticle list \<Rightarrow> NewsResponse" where
  "NewsResponse_make s n = \<lparr>status = s, news = n\<rparr>"

text \<open>\<open>NewsResponse(**response_data)\<close>; keys that are not fields are ignored.\<close>

definition NewsResponse_init :: "pydantic \<Rightarrow> (string \<times> json) list \<Rightarrow> NewsResponse validated" where
  "NewsResponse_init P d =
     ap (ap (Inr NewsResponse_make)
       (required (prim (str_validate P)) d ''status''))
       (required (list_of (NewsArticle_of P)) d ''news'')"

definition total_count :: "NewsResponse \<Rightarrow> int" where
  "total_count r = int (length (news r))"

section \<open>The client (\<open>CurrentsClient\<close>)\<close>

text \<open>
  What a public method of the client can raise: a member of the family of
  \<open>CurrentsAPIError\<close>, or the \<open>ValidationError\<close> of the schema library, which is a
  \<open>ValueError\<close> and not a member of the family.
\<close>

datatype client_error = Currents currents_error | PydanticValidationError "error_item list"

record currents_client =
  client_http :: http_client

text \<open>
  \<open>api_key or os.getenv('NEWS_API_KEY')\<close>: the explicit key unless it is \<open>None\<close> or empty,
  else the value of the environment; \<open>not api_key\<close> holds for \<open>None\<close> and for the empty
  string.
\<close>

definition CurrentsClient_init ::
  "(string \<Rightarrow> string option) \<Rightarrow> string option \<Rightarrow> string \<Rightarrow> currents_error + currents_client" where
  "CurrentsClient_init getenv api_key url =
     (let api_key' =
            (if api_key \<noteq> None \<and> api_key \<noteq> Some [] then api_key else getenv ''NEWS_API_KEY'')
      in case api_key' of
           None \<Rightarrow> Inl (CurrentsAuthenticationError ERROR_MESSAGES_invalid_api_key)
         | Some k \<Rightarrow>
             if k = [] then Inl (CurrentsAuthenticationError ERROR_MESSAGES_invalid_api_key)
             else Inr \<lparr>client_http = HTTPClient_init k url\<rparr>)"

definition to_news_response ::
  "pydantic \<Rightarrow> (currents_error + (string \<times> json) list) \<times> world \<Rightarrow>
     (client_error + NewsResponse) \<times> world" where
  "to_news_response P rw =
     (case rw of
        (Inl e, w) \<Rightarrow> (Inl (Currents e), w)
      | (Inr d, w) \<Rightarrow>
          (case NewsResponse_init P d of
             Inl es \<Rightarrow> (Inl (PydanticValidationError es), w)
           | Inr r \<Rightarrow> (Inr r, w)))"

definition get_latest_news ::
  "pydantic \<Rightarrow> currents_client \<Rightarrow> network \<Rightarrow> string \<Rightarrow> int \<Rightarrow> world \<Rightarrow>
     (client_error + NewsResponse) \<times> world" where
  "get_latest_news P c net lang limit w =
     (case validate_params lang limit None of
        Inl e \<Rightarrow> (Inl (Currents e), w)
      | Inr _ \<Rightarrow>
          to_news_response P
            (request (client_http c) net LATEST_NEWS_ENDPOINT
               (Some [(''language'', PStr lang), (''limit'', PInt limit)]) w))"

definition search_news ::
  "pydantic \<Rightarrow> currents_client \<Rightarrow> network \<Rightarrow> string \<Rightarrow> string \<Rightarrow> int \<Rightarrow> string option \<Rightarrow> world \<Rightarrow>
     (client_error + NewsResponse) \<times> world" where
  "search_news P c net keywords lang limit domain w =
     (case validate_params lang limit None of
        Inl e \<Rightarrow> (Inl (Currents e), w)
      | Inr _ \<Rightarrow>
          (case validate_keywords keywords of
             Inl e \<Rightarrow> (Inl (Currents e), w)
           | Inr _ \<Rightarrow>
               to_news_response P
                 (request (client_http c) net SEARCH_ENDPOINT
                    (Some ([(''keywords'', PStr keywords), (''language'', PStr lang),
                            (''limit'', PInt limit)]
                           @ (case domain of
                                None \<Rightarrow> []
                              | Some dm \<Rightarrow> if dm = [] then [] else [(''domain'', PStr dm)]))) w)))"

definition get_category_news ::
  "pydantic \<Rightarrow> currents_client \<Rightarrow> network \<Rightarrow> string \<Rightarrow> string \<Rightarrow> int \<Rightarrow> world \<Rightarrow>
     (client_error + NewsResponse) \<times> world" where
  "get_category_news P c net cat lang limit w =
     (case validate_params lang limit (Some cat) of
        Inl e \<Rightarrow> (Inl (Currents e), w)
      | Inr _ \<Rightarrow>
          to_news_response P
            (request (client_http c) net SEARCH_ENDPOINT
               (Some [(''category'', PStr cat), (''language'', PStr lang),
                      (''limit'', PInt limit)]) w))"

section \<open>Notions used to state the properties\<close>

text \<open>
  The status code that the \<open>__init__\<close> of each class passes to the base class; the base
  class itself is always raised with the default, \<open>None\<close>.
\<close>

fun kind_status_code :: "error_kind \<Rightarrow> int option" where
  "kind_status_code APIError = None"
| "kind_status_code AuthenticationError = Some 401"
| "kind_status_code RateLimitError = Some 429"
| "kind_status_code ValidationError = Some 400"
| "kind_status_code ServerError = Some 500"
| "kind_status_code ConnectionError = None"
| "kind_status_code ResponseError = None"

text \<open>The calls of \<open>session.get\<close> in a trace, in order.\<close>

fun calls_of :: "event list \<Rightarrow> get_call list" where
  "calls_of [] = []"
| "calls_of (Get c # es) = c # calls_of es"
| "calls_of (Sleep secs # es) = calls_of es"

text \<open>Whether a failed call raised a \<open>CurrentsValidationError\<close>.\<close>

fun is_currents_validation_error :: "client_error + 'a \<Rightarrow> bool" where
  "is_currents_validation_error (Inl (Currents e)) = (kind e = ValidationError)"
| "is_currents_validation_error (Inl (PydanticValidationError es)) = False"
| "is_currents_validation_error (Inr r) = False"

text \<open>The errors collected by a validation, none when it succeeds.\<close>

definition errors_of :: "'a validated \<Rightarrow> error_item list" where
  "errors_of r = (case r of Inl es \<Rightarrow> es | Inr a \<Rightarrow> [])"

text \<open>The fields of \<open>NewsArticle\<close> declared with \<open>Field(...)\<close>, that is, required.\<close>

definition required_article_fields :: "string list" where
  "required_article_fields =
     [''id'', ''title'', ''description'', ''url'', ''language'', ''published'']"

text \<open>
  A well-formed response body, as the expected success shape describes it: a \<open>status\<close>
  string and a \<open>news\<close> array of objects with the fields id, title, description, url,
  language and published, an optional author and image, and an optional category array
  of strings, each value accepted by the library's validator of its type.
\<close>

definition present_ok :: "(json \<Rightarrow> 'a option) \<Rightarrow> (string \<times> json) list \<Rightarrow> string \<Rightarrow> bool" where
  "present_ok p d name = (case map_of d name of None \<Rightarrow> False | Some j \<Rightarrow> p j \<noteq> None)"

definition optional_ok :: "(json \<Rightarrow> 'a option) \<Rightarrow> (string \<times> json) list \<Rightarrow> string \<Rightarrow> bool" where
  "optional_ok p d name =
     (case map_of d name of None \<Rightarrow> True | Some JNull \<Rightarrow> True | Some j \<Rightarrow> p j \<noteq> None)"

definition category_ok :: "pydantic \<Rightarrow> (string \<times> json) list \<Rightarrow> bool" where
  "category_ok P d =
     (case map_of d ''category'' of
        None \<Rightarrow> True
      | Some (JArr ys) \<Rightarrow> list_all (\<lambda>y. str_validate P y \<noteq> None) ys
      | Some _ \<Rightarrow> False)"

definition article_well_formed :: "pydantic \<Rightarrow> json \<Rightarrow> bool" where
  "article_well_formed P j =
     (case j of
        JObj d \<Rightarrow>
          present_ok (str_validate P) d ''id'' \<and> present_ok (str_validate P) d ''title'' \<and>
          present_ok (str_validate P) d ''description'' \<and>
          present_ok (http_url_validate P) d ''url'' \<and>
          optional_ok (str_validate P) d ''author'' \<and> optional_ok (str_validate P) d ''image'' \<and>
          present_ok (str_validate P) d ''language'' \<and> category_ok P d \<and>
          present_ok (datetime_validate P) d ''published''
      | _ \<Rightarrow> False)"

definition response_well_formed :: "pydantic \<Rightarrow> (string \<times> json) list \<Rightarrow> bool" where
  "response_well_formed P d =
     (present_ok (str_validate P) d ''status'' \<and>
      (case map_of d ''news'' of
         Some (JArr xs) \<Rightarrow> list_all (article_well_formed P) xs
       | _ \<Rightarrow> False))"

section \<open>Concrete inputs for the examples\<close>

text \<open>
  An instance of the library's validators, to run the model on concrete responses: a JSON
  string for \<open>str\<close>; a string with the scheme http or https and something after it for
  \<open>HttpUrl\<close>; a timestamp written \<open>YYYY-MM-DDTHH:MM:SS+HH:MM\<close> for \<open>datetime\<close>. The
  theorems hold for every instance; only the examples use this one.
\<close>

definition example_str :: "json \<Rightarrow> string option" where
  "example_str j = (case j of JStr s \<Rightarrow> Some s | _ \<Rightarrow> None)"

definition example_http_url :: "json \<Rightarrow> string option" where
  "example_http_url j =
     (case j of
        JStr s \<Rightarrow>
          if (take 7 s = ''http://'' \<and> 7 < length s) \<or> (take 8 s = ''https://'' \<and> 8 < length s)
          then Some s else None
      | _ \<Rightarrow> None)"

definition digits_at :: "string \<Rightarrow> nat \<Rightarrow> nat \<Rightarrow> int option" where
  "digits_at s i n =
     (let t = take n (drop i s)
      in if length t = n \<and> list_all is_digit t then Some (decimal_value t) else None)"

definition example_datetime :: "json \<Rightarrow> datetime option" where
  "example_datetime j =
     (case j of
        JStr s \<Rightarrow>
          (case (digits_at s 0 4, digits_at s 5 2, digits_at s 8 2, digits_at s 11 2,
                 digits_at s 14 2, digits_at s 17 2, digits_at s 20 2, digits_at s 23 2) of
             (Some y, Some mo, Some d, Some h, Some mi, Some sec, Some oh, Some om) \<Rightarrow>
               if length s = 25 \<and> s ! 4 = CHR ''-'' \<and> s ! 7 = CHR ''-'' \<and> s ! 10 = CHR ''T'' \<and>
                  s ! 13 = CHR '':'' \<and> s ! 16 = CHR '':'' \<and>
                  (s ! 19 = CHR ''+'' \<or> s ! 19 = CHR ''-'') \<and> s ! 22 = CHR '':'' \<and>
                  1 \<le> mo \<and> mo \<le> 12 \<and> 1 \<le> d \<and> d \<le> 31 \<and> h < 24 \<and> mi < 60 \<and> sec < 60 \<and>
                  oh < 24 \<and> om < 60
               then Some \<lparr>dt_year = y, dt_month = mo, dt_day = d, dt_hour = h, dt_minute = mi,
                          dt_second = sec,
                          dt_utcoffset_minutes =
                            (if s ! 19 = CHR ''-'' then - (60 * oh + om) else 60 * oh + om)\<rparr>
               else None
           | _ \<Rightarrow> None)
      | _ \<Rightarrow> None)"

definition example_pydantic :: pydantic where
  "example_pydantic =
     \<lparr>str_validate = example_str, http_url_validate = example_http_url,
      datetime_validate = example_datetime\<rparr>"

definition example_client :: currents_client where
  "example_client = \<lparr>client_http = HTTPClient_init ''key'' ''https://api.example.com/v1/''\<rparr>"

definition world0 :: world where
  "world0 = \<lparr>trace = []\<rparr>"

definition ok_response :: "json \<Rightarrow> response" where
  "ok_response body =
     \<lparr>resp_status_code = 200, resp_reason = ''OK'', resp_headers = Map.empty,
      resp_json = Some body\<rparr>"

text \<open>An article with every field, and the same article without its \<open>id\<close>.\<close>

definition article_fields_no_id :: "(string \<times> json) list" where
  "article_fields_no_id =
     [(''title'', JStr ''Test Article''), (''description'', JStr ''Test description''),
      (''url'', JStr ''https://example.com/article''), (''author'', JStr ''Test Author''),
      (''image'', JNull), (''language'', JStr ''en''),
      (''category'', JArr [JStr ''technology'']),
      (''published'', JStr ''2024-01-01T12:00:00+00:00'')]"

definition article_fields :: "(string \<times> json) list" where
  "article_fields = (''id'', JStr ''test-id'') # article_fields_no_id"

definition news_body :: "json list \<Rightarrow> (string \<times> json) list" where
  "news_body items = [(''status'', JStr ''ok''), (''news'', JArr items)]"

section \<open>Properties of parameter validation\<close>

lemmas error_ctor_defs =
  CurrentsAPIError_def CurrentsAuthenticationError_def CurrentsRateLimitError_def
  CurrentsValidationError_def CurrentsServerError_def CurrentsConnectionError_def
  CurrentsResponseError_def

lemmas http_code_defs = HTTP400_def HTTP401_def HTTP429_def HTTP500_def

lemma validate_params_cases:
  "validate_params lang limit cat =
     (if lang \<notin> set valid_languages
        then Inl (CurrentsValidationError ERROR_MESSAGES_invalid_language None)
      else if limit < 1 \<or> 100 < limit
        then Inl (CurrentsValidationError ERROR_MESSAGES_limit_out_of_range None)
      else if (\<exists>c. cat = Some c \<and> c \<noteq> [] \<and> c \<notin> set valid_categories)
        then Inl (CurrentsValidationError ERROR_MESSAGES_invalid_category None)
      else Inr ())"
  by (auto simp: validate_params_def validate_language_def validate_limit_def
      validate_category_def MIN_LIMIT_def MAX_LIMIT_def split: option.splits)

lemma validate_params_kind:
  "validate_params lang limit cat = Inl e \<Longrightarrow> kind e = ValidationError \<and> status_code e = Some 400"
  by (auto simp: validate_params_cases error_ctor_defs http_code_defs split: if_splits)

text \<open>
  C3: \<open>validate_params\<close> raises a validation error exactly when the language is not one
  of the 14 codes, or the limit is outside 1..100, or a non-empty category is given that is
  not one of the 12 codes. The checks run in the order language, limit, category, so the
  error is that of the first rule violated. Validation reads no state and makes no call:
  when it fails, each public method returns its error and leaves the world as it was.
\<close>

theorem validate_params_spec:
  "validate_params lang limit cat =
     (if lang \<notin> set valid_languages
        then Inl (CurrentsValidationError ERROR_MESSAGES_invalid_language None)
      else if limit < 1 \<or> 100 < limit
        then Inl (CurrentsValidationError ERROR_MESSAGES_limit_out_of_range None)
      else if (\<exists>c. cat = Some c \<and> c \<noteq> [] \<and> c \<notin> set valid_categories)
        then Inl (CurrentsValidationError ERROR_MESSAGES_invalid_category None)
      else Inr ())
   \<and> (isl (validate_params lang limit cat) \<longleftrightarrow>
        lang \<notin> set valid_languages \<or> limit < 1 \<or> 100 < limit \<or>
        (\<exists>c. cat = Some c \<and> c \<noteq> [] \<and> c \<notin> set valid_categories))
   \<and> (\<forall>e. validate_params lang limit cat = Inl e \<longrightarrow> kind e = ValidationError)
   \<and> length valid_languages = 14 \<and> distinct valid_languages
   \<and> length valid_categories = 12 \<and> distinct valid_categories
   \<and> (\<forall>e. validate_params lang limit None = Inl e \<longrightarrow>
         get_latest_news P c net lang limit w = (Inl (Currents e), w) \<and>
         search_news P c net kw lang limit dm w = (Inl (Currents e), w))
   \<and> (\<forall>e. validate_params lang limit (Some category') = Inl e \<longrightarrow>
         get_category_news P c net category' lang limit w = (Inl (Currents e), w))"
proof -
  have a: "isl (validate_params lang limit cat) \<longleftrightarrow>
        lang \<notin> set valid_languages \<or> limit < 1 \<or> 100 < limit \<or>
        (\<exists>c. cat = Some c \<and> c \<noteq> [] \<and> c \<notin> set valid_categories)"
    by (simp add: validate_params_cases)
  have b: "length valid_languages = 14" "distinct valid_languages"
    "length valid_categories = 12" "distinct valid_categories"
    by (simp_all add: valid_languages_def valid_categories_def)
  have c: "\<forall>e. validate_params lang limit None = Inl e \<longrightarrow>
         get_latest_news P c net lang limit w = (Inl (Currents e), w) \<and>
         search_news P c net kw lang limit dm w = (Inl (Currents e), w)"
    by (simp add: get_latest_news_def search_news_def)
  have d: "\<forall>e. validate_params lang limit (Some category') = Inl e \<longrightarrow>
         get_category_news P c net category' lang limit w = (Inl (Currents e), w)"
    by (simp add: get_category_news_def)
  show ?thesis
    using validate_params_cases[of lang limit cat] validate_params_kind[of lang limit cat]
      a b c d by blast
qed

theorem validate_params_spec_witness:
  "validate_params ''xx'' 0 (Some ''bogus'') =
     Inl (CurrentsValidationError ERROR_MESSAGES_invalid_language None)
   \<and> validate_params ''en'' 101 (Some ''bogus'') =
     Inl (CurrentsValidationError ERROR_MESSAGES_limit_out_of_range None)
   \<and> validate_params ''en'' 100 (Some ''bogus'') =
     Inl (CurrentsValidationError ERROR_MESSAGES_invalid_category None)
   \<and> validate_params ''vi'' 100 (Some ''travel'') = Inr ()
   \<and> get_category_news example_pydantic example_client (\<lambda>n g. RequestException)
        ''bogus'' ''en'' 100 world0 =
      (Inl (Currents (CurrentsValidationError ERROR_MESSAGES_invalid_category None)), world0)"
proof -
  have 1: "validate_params ''xx'' 0 (Some ''bogus'') =
     Inl (CurrentsValidationError ERROR_MESSAGES_invalid_language None)"
    using validate_params_spec[of "''xx''" 0 "Some ''bogus''", THEN conjunct1]
    by (simp add: valid_languages_def)
  have 2: "validate_params ''en'' 101 (Some ''bogus'') =
     Inl (CurrentsValidationError ERROR_MESSAGES_limit_out_of_range None)"
    using validate_params_spec[of "''en''" 101 "Some ''bogus''", THEN conjunct1]
    by (simp add: valid_languages_def)
  have 3: "validate_params ''en'' 100 (Some ''bogus'') =
     Inl (CurrentsValidationError ERROR_MESSAGES_invalid_category None)"
    using validate_params_spec[of "''en''" 100 "Some ''bogus''", THEN conjunct1]
    by (simp add: valid_languages_def valid_categories_def)
  have 5: "validate_params ''vi'' 100 (Some ''travel'') = Inr ()"
    using validate_params_spec[of "''vi''" 100 "Some ''travel''", THEN conjunct1]
    by (simp add: valid_languages_def valid_categories_def)
  have "\<forall>e. validate_params ''en'' 100 (Some ''bogus'') = Inl e \<longrightarrow>
         get_category_news example_pydantic example_client (\<lambda>n g. RequestException)
           ''bogus'' ''en'' 100 world0 = (Inl (Currents e), world0)"
    using validate_params_spec[where lang = "''en''" and limit = 100 and category' = "''bogus''"
        and P = example_pydantic and c = example_client and net = "\<lambda>n g. RequestException"
        and w = world0 and cat = None and kw = "[]" and dm = None]
    by blast
  with 3 have 6: "get_category_news example_pydantic example_client (\<lambda>n g. RequestException)
        ''bogus'' ''en'' 100 world0 =
      (Inl (Currents (CurrentsValidationError ERROR_MESSAGES_invalid_category None)), world0)"
    by blast
  from 1 2 3 5 6 show ?thesis by (intro conjI)
qed

section \<open>The article count\<close>

text \<open>
  C8: \<open>total_count\<close> of a response is the length of its \<open>news\<close> sequence, for the empty
  sequence as for any other.
\<close>

theorem total_count_is_length:
  "total_count r = int (length (news r))
   \<and> total_count \<lparr>status = s, news = ns\<rparr> = int (length ns)
   \<and> total_count \<lparr>status = s, news = []\<rparr> = 0"
  by (simp add: total_count_def)

section \<open>Properties of the error classifier\<close>

lemma py_int_empty: "py_int [] = None"
  by (simp add: py_int_def int_strip_def)

lemma py_int_examples:
  "py_int ''60'' = Some 60" "py_int '' 60 '' = Some 60" "py_int ''+7'' = Some 7"
  "py_int ''-5'' = Some (- 5)" "py_int ''1_000'' = Some 1000" "py_int ''007'' = Some 7"
  "py_int ''abc'' = None" "py_int ''6.5'' = None" "py_int ''1__0'' = None"
  "py_int ''_1'' = None" "py_int ''1_'' = None" "py_int ''- 1'' = None"
  "py_int ''Wed, 21 Oct 2015 07:28:00 GMT'' = None"
  "py_int (CHR 0x1F # ''60'') = None" "py_int (''60'' @ [CHR 0x1C]) = None"
  "py_int (CHR 0xA0 # ''60'') = Some 60" "py_int (''60'' @ [CHR 0x85]) = Some 60"
  by (simp_all add: py_int_def int_strip_def int_isspace_def is_digit_def digit_val_def
      decimal_value_def)

lemma generic_message_parts:
  "sublist a (p @ a @ q @ b)" "sublist b (p @ a @ q @ b)"
proof -
  show "sublist a (p @ a @ q @ b)" by (rule sublist_appendI)
  have "sublist b ((p @ a @ q) @ b @ [])" by (rule sublist_appendI)
  then show "sublist b (p @ a @ q @ b)" by simp
qed

lemma handle_http_error_generic:
  assumes "code \<noteq> 401" "code \<noteq> 429" "code \<noteq> 400" "\<not> 500 \<le> code"
  shows "handle_http_error code r =
           Inl (CurrentsAPIError (''HTTP '' @ py_str_int code @ '': '' @ resp_reason r) None)"
  using assms by (simp add: handle_http_error_def raise_generic_error_def http_code_defs)

text \<open>
  C2: the classifier raises exactly one error for every status code and response,
  whatever the body: \<open>CurrentsAuthenticationError\<close> for 401, \<open>CurrentsRateLimitError\<close> for
  429, \<open>CurrentsValidationError\<close> for 400, \<open>CurrentsServerError\<close> from 500 up, and for any
  other status the base \<open>CurrentsAPIError\<close>, whose message is \<open>HTTP\<close>, the status in
  decimal, a colon and the reason phrase of the response.
\<close>

theorem handle_http_error_classifies:
  "\<exists>e. handle_http_error code r = Inl e \<and>
     kind e =
       (if code = 401 then AuthenticationError
        else if code = 429 then RateLimitError
        else if code = 400 then ValidationError
        else if code \<ge> 500 then ServerError
        else APIError) \<and>
     (if code = 401 \<or> code = 429 \<or> code = 400 \<or> code \<ge> 500 then True
      else message e = ''HTTP '' @ py_str_int code @ '': '' @ resp_reason r \<and>
           sublist (py_str_int code) (message e) \<and> sublist (resp_reason r) (message e))"
proof (cases "code = 401 \<or> code = 429 \<or> code = 400 \<or> code \<ge> 500")
  case True
  then show ?thesis
    by (auto simp: handle_http_error_def raise_auth_error_def raise_validation_error_def
        raise_server_error_def handle_rate_limit_error_def Let_def
        error_ctor_defs http_code_defs)
next
  case False
  let ?m = "''HTTP '' @ py_str_int code @ '': '' @ resp_reason r"
  from False have "handle_http_error code r = Inl (CurrentsAPIError ?m None)"
    by (simp add: handle_http_error_generic)
  moreover have "kind (CurrentsAPIError ?m None) = APIError"
    and "message (CurrentsAPIError ?m None) = ?m"
    by (simp_all add: CurrentsAPIError_def)
  moreover have "sublist (py_str_int code) ?m" "sublist (resp_reason r) ?m"
    by (rule generic_message_parts)+
  ultimately show ?thesis using False
    by (intro exI[of _ "CurrentsAPIError ?m None"]) simp
qed

lemma py_str_int_418: "py_str_int 418 = ''418''"
  by code_simp

lemma handle_http_error_teapot:
  "handle_http_error 418
     \<lparr>resp_status_code = 418, resp_reason = ''Teapot'', resp_headers = Map.empty,
      resp_json = Some (JObj [(''status'', JStr ''error'')])\<rparr> =
   Inl (CurrentsAPIError ''HTTP 418: Teapot'' None)"
  by (simp add: handle_http_error_generic py_str_int_418)

text \<open>
  C6: for a 429 response the classifier raises a \<open>CurrentsRateLimitError\<close> whose
  \<open>retry_after\<close> is the integer that \<open>int\<close> reads from the \<open>Retry-After\<close> header, and is
  unset when the header is missing or \<open>int\<close> rejects it; reading the header raises nothing
  else.
\<close>

theorem rate_limit_retry_after:
  "handle_rate_limit_error r =
     Inl (CurrentsRateLimitError ''API rate limit exceeded. Please try again later.''
            (case resp_headers r ''Retry-After'' of None \<Rightarrow> None | Some s \<Rightarrow> py_int s))
   \<and> handle_http_error 429 r = handle_rate_limit_error r
   \<and> kind (CurrentsRateLimitError m ra) = RateLimitError
   \<and> retry_after (CurrentsRateLimitError m ra) = ra"
  by (auto simp: handle_rate_limit_error_def Let_def py_int_empty handle_http_error_def
      http_code_defs ERROR_MESSAGES_rate_limit_exceeded_def error_ctor_defs
      split: option.splits)

theorem rate_limit_retry_after_witness:
  "handle_http_error 429
     \<lparr>resp_status_code = 429, resp_reason = ''Too Many Requests'',
      resp_headers = [''Retry-After'' \<mapsto> ''60''], resp_json = None\<rparr> =
   Inl (CurrentsRateLimitError ''API rate limit exceeded. Please try again later.'' (Some 60))
   \<and> handle_http_error 429
     \<lparr>resp_status_code = 429, resp_reason = ''Too Many Requests'',
      resp_headers = [''Retry-After'' \<mapsto> ''Wed, 21 Oct 2015 07:28:00 GMT''],
      resp_json = None\<rparr> =
   Inl (CurrentsRateLimitError ''API rate limit exceeded. Please try again later.'' None)
   \<and> handle_http_error 429
     \<lparr>resp_status_code = 429, resp_reason = ''Too Many Requests'',
      resp_headers = [''Retry-After'' \<mapsto> CHR 0x1F # ''60''], resp_json = None\<rparr> =
   Inl (CurrentsRateLimitError ''API rate limit exceeded. Please try again later.'' None)
   \<and> handle_http_error 429
     \<lparr>resp_status_code = 429, resp_reason = ''Too Many Requests'',
      resp_headers = [''Retry-After'' \<mapsto> '' 60 ''], resp_json = None\<rparr> =
   Inl (CurrentsRateLimitError ''API rate limit exceeded. Please try again later.'' (Some 60))
   \<and> handle_http_error 429
     \<lparr>resp_status_code = 429, resp_reason = ''Too Many Requests'',
      resp_headers = Map.empty, resp_json = None\<rparr> =
   Inl (CurrentsRateLimitError ''API rate limit exceeded. Please try again later.'' None)"
  using rate_limit_retry_after by (simp add: py_int_examples)

text \<open>
  C5: for a response with a 2xx status the body is parsed; a body that is not JSON raises
  a \<open>CurrentsResponseError\<close> whose message ends in \<open>Invalid JSON\<close>, a JSON value that is not
  an object raises a \<open>CurrentsResponseError\<close> with the message \<open>Invalid response from API\<close>,
  and an object is returned.
\<close>

theorem handle_response_2xx:
  assumes "200 \<le> resp_status_code r" "resp_status_code r < 300"
  shows "handle_response r =
     (case resp_json r of
        None \<Rightarrow> Inl (CurrentsResponseError ''Invalid response from API: Invalid JSON'')
      | Some (JObj d) \<Rightarrow> Inr d
      | Some _ \<Rightarrow> Inl (CurrentsResponseError ''Invalid response from API''))
    \<and> kind (CurrentsResponseError m) = ResponseError"
  using assms
  by (simp add: handle_response_def raise_for_status_def parse_response_json_def
      ERROR_MESSAGES_invalid_response_def error_ctor_defs split: option.splits json.splits)

theorem handle_response_2xx_witness:
  "handle_response (ok_response (JArr [])) =
     Inl (CurrentsResponseError ''Invalid response from API'')
   \<and> handle_response (ok_response (JObj [(''status'', JStr ''ok'')])) =
     Inr [(''status'', JStr ''ok'')]
   \<and> handle_response ((ok_response JNull)\<lparr>resp_json := None\<rparr>) =
     Inl (CurrentsResponseError ''Invalid response from API: Invalid JSON'')"
  using handle_response_2xx[of "ok_response (JArr [])"]
    handle_response_2xx[of "ok_response (JObj [(''status'', JStr ''ok'')])"]
    handle_response_2xx[of "(ok_response JNull)\<lparr>resp_json := None\<rparr>"]
  by (simp add: ok_response_def)

section \<open>Properties of construction\<close>

text \<open>
  C7: constructing a client with no explicit key (or an empty one) and no key (or an empty
  one) in the environment raises \<open>CurrentsAuthenticationError\<close>; the constructor has no
  access to the network. A non-empty explicit key, or else a non-empty key of the
  environment, gives a client whose session carries that key as the parameter \<open>apiKey\<close>.
\<close>

theorem client_init_credential:
  "CurrentsClient_init getenv api_key url =
     (case (if api_key \<noteq> None \<and> api_key \<noteq> Some [] then api_key else getenv ''NEWS_API_KEY'') of
        None \<Rightarrow> Inl (CurrentsAuthenticationError ''Invalid API key provided'')
      | Some k \<Rightarrow> if k = [] then Inl (CurrentsAuthenticationError ''Invalid API key provided'')
                  else Inr \<lparr>client_http = HTTPClient_init k url\<rparr>)
   \<and> CurrentsClient_init Map.empty None url =
       Inl (CurrentsAuthenticationError ''Invalid API key provided'')
   \<and> kind (CurrentsAuthenticationError m) = AuthenticationError
   \<and> session_params (HTTPClient_init k url) = [(''apiKey'', PStr k)]
   \<and> (k \<noteq> [] \<longrightarrow>
        CurrentsClient_init getenv (Some k) url = Inr \<lparr>client_http = HTTPClient_init k url\<rparr> \<and>
        CurrentsClient_init [''NEWS_API_KEY'' \<mapsto> k] None url =
          Inr \<lparr>client_http = HTTPClient_init k url\<rparr>)"
  by (simp add: CurrentsClient_init_def Let_def ERROR_MESSAGES_invalid_api_key_def
      error_ctor_defs HTTPClient_init_def split: option.splits)

theorem client_init_credential_witness:
  "CurrentsClient_init Map.empty (Some ''abc'') ''https://api.example.com/v1'' =
     Inr \<lparr>client_http = HTTPClient_init ''abc'' ''https://api.example.com/v1''\<rparr>
   \<and> CurrentsClient_init [''NEWS_API_KEY'' \<mapsto> ''abc''] None ''https://api.example.com/v1'' =
     Inr \<lparr>client_http = HTTPClient_init ''abc'' ''https://api.example.com/v1''\<rparr>
   \<and> CurrentsClient_init [''NEWS_API_KEY'' \<mapsto> ''''] (Some '''') ''https://api.example.com/v1'' =
     Inl (CurrentsAuthenticationError ''Invalid API key provided'')"
  using client_init_credential[of Map.empty "Some ''abc''" "''https://api.example.com/v1''" _ "''abc''"]
    client_init_credential[of "[''NEWS_API_KEY'' \<mapsto> '''']" "Some ''''" "''https://api.example.com/v1''"]
  by simp

section \<open>Properties of the transport\<close>

lemma attempts_three: "[0 ..< 3] = [0, 1, 2::nat]"
  by (simp add: numeral_3_eq_3 upt_rec)

lemma calls_of_append: "calls_of (es @ fs) = calls_of es @ calls_of fs"
  by (induction es rule: calls_of.induct) simp_all

lemma request_loop_calls:
  "\<exists>m \<le> length as.
     calls_of (trace (snd (request_loop c net g as w))) = calls_of (trace w) @ replicate m g"
proof (induction as arbitrary: w)
  case Nil
  show ?case by simp
next
  case (Cons a as)
  show ?case
  proof (cases "net (trace w) g")
    case (Response r)
    then have "calls_of (trace (snd (request_loop c net g (a # as) w))) =
        calls_of (trace w) @ replicate 1 g"
      by (simp add: session_get_def calls_of_append)
    then show ?thesis by (intro exI[of _ 1]) simp
  next
    case RequestException
    show ?thesis
    proof (cases "int a = max_retries c - 1")
      case True
      with RequestException
      have "calls_of (trace (snd (request_loop c net g (a # as) w))) =
          calls_of (trace w) @ replicate 1 g"
        by (simp add: session_get_def calls_of_append)
      then show ?thesis by (intro exI[of _ 1]) simp
    next
      case False
      let ?w = "time_sleep (retry_delay c * 2 ^ a) (w\<lparr>trace := trace w @ [Get g]\<rparr>)"
      from Cons.IH[of ?w] obtain m where m: "m \<le> length as"
        "calls_of (trace (snd (request_loop c net g as ?w))) = calls_of (trace ?w) @ replicate m g"
        by blast
      from False RequestException
      have "request_loop c net g (a # as) w = request_loop c net g as ?w"
        by (simp add: session_get_def)
      with m have "calls_of (trace (snd (request_loop c net g (a # as) w))) =
          calls_of (trace w) @ replicate (Suc m) g"
        by (simp add: time_sleep_def calls_of_append replicate_app_Cons_same)
      with m(1) show ?thesis by (intro exI[of _ "Suc m"]) simp
    qed
  qed
qed

lemma request_calls_bound:
  "length (calls_of (trace (snd (request c net ep ps w)))) \<le>
     length (calls_of (trace w)) + nat (max_retries c)"
proof -
  let ?g = "\<lparr>call_url = base_url c @ ep, call_session_params = session_params c,
            call_params = ps, call_timeout = REQUEST_TIMEOUT\<rparr>"
  from request_loop_calls[of "[0 ..< nat (max_retries c)]" c net ?g w]
  obtain m where "m \<le> nat (max_retries c)"
    "calls_of (trace (snd (request_loop c net ?g [0 ..< nat (max_retries c)] w))) =
       calls_of (trace w) @ replicate m ?g"
    by auto
  then show ?thesis by (simp add: request_def Let_def)
qed

lemma request_three_attempts:
  "request (HTTPClient_init k b) net ep ps w =
     (let g = \<lparr>call_url = rstrip_slash b @ ep, call_session_params = [(''apiKey'', PStr k)],
               call_params = ps, call_timeout = 30\<rparr>;
          t = trace w
      in case net t g of
           Response r \<Rightarrow> (handle_response r, w\<lparr>trace := t @ [Get g]\<rparr>)
         | RequestException \<Rightarrow>
             (case net (t @ [Get g, Sleep 1]) g of
                Response r \<Rightarrow>
                  (handle_response r, w\<lparr>trace := t @ [Get g, Sleep 1, Get g]\<rparr>)
              | RequestException \<Rightarrow>
                  (case net (t @ [Get g, Sleep 1, Get g, Sleep 2]) g of
                     Response r \<Rightarrow>
                       (handle_response r,
                        w\<lparr>trace := t @ [Get g, Sleep 1, Get g, Sleep 2, Get g]\<rparr>)
                   | RequestException \<Rightarrow>
                       (Inl (CurrentsConnectionError ''Failed to connect to Currents API''),
                        w\<lparr>trace := t @ [Get g, Sleep 1, Get g, Sleep 2, Get g]\<rparr>))))"
  by (simp add: request_def HTTPClient_init_def attempts_three session_get_def time_sleep_def
      Let_def REQUEST_TIMEOUT_def ERROR_MESSAGES_connection_error_def
      split: net_result.splits)

lemma request_calls_count:
  "\<exists>m. 1 \<le> m \<and> m \<le> 3
     \<and> calls_of (trace (snd (request (HTTPClient_init k b) net ep ps w))) =
         calls_of (trace w) @ replicate m
           \<lparr>call_url = rstrip_slash b @ ep, call_session_params = [(''apiKey'', PStr k)],
            call_params = ps, call_timeout = 30\<rparr>"
proof -
  let ?g = "\<lparr>call_url = rstrip_slash b @ ep, call_session_params = [(''apiKey'', PStr k)],
            call_params = ps, call_timeout = 30\<rparr>"
  let ?r = "calls_of (trace (snd (request (HTTPClient_init k b) net ep ps w)))"
  have "?r = calls_of (trace w) @ replicate 1 ?g \<or> ?r = calls_of (trace w) @ replicate 2 ?g
      \<or> ?r = calls_of (trace w) @ replicate 3 ?g"
    by (simp add: request_three_attempts Let_def calls_of_append numeral_2_eq_2 numeral_3_eq_3
        split: net_result.splits)
  then consider "?r = calls_of (trace w) @ replicate 1 ?g"
    | "?r = calls_of (trace w) @ replicate 2 ?g" | "?r = calls_of (trace w) @ replicate 3 ?g"
    by blast
  then show ?thesis
  proof cases
    case 1
    then show ?thesis by (intro exI[of _ 1]) simp
  next
    case 2
    then show ?thesis by (intro exI[of _ 2]) simp
  next
    case 3
    then show ?thesis by (intro exI[of _ 3]) simp
  qed
qed

text \<open>
  C1: a request of the client makes at most three calls of \<open>session.get\<close>. A call that
  returns a response, whatever its status, ends the request with the handling of that
  response; only a call that raises \<open>RequestException\<close> is followed by another. The trace
  of the request is exact: the first failure is followed by a sleep of 1 second and then
  the second call, the second failure by a sleep of 2 seconds and then the third call, so
  each sleep lies between the failed attempt and the next one; a third failure raises one
  \<open>CurrentsConnectionError\<close> with no sleep after it.
\<close>

theorem request_retry_policy:
  "request (HTTPClient_init k b) net ep ps w =
     (let g = \<lparr>call_url = rstrip_slash b @ ep, call_session_params = [(''apiKey'', PStr k)],
               call_params = ps, call_timeout = 30\<rparr>;
          t = trace w
      in case net t g of
           Response r \<Rightarrow> (handle_response r, w\<lparr>trace := t @ [Get g]\<rparr>)
         | RequestException \<Rightarrow>
             (case net (t @ [Get g, Sleep 1]) g of
                Response r \<Rightarrow>
                  (handle_response r, w\<lparr>trace := t @ [Get g, Sleep 1, Get g]\<rparr>)
              | RequestException \<Rightarrow>
                  (case net (t @ [Get g, Sleep 1, Get g, Sleep 2]) g of
                     Response r \<Rightarrow>
                       (handle_response r,
                        w\<lparr>trace := t @ [Get g, Sleep 1, Get g, Sleep 2, Get g]\<rparr>)
                   | RequestException \<Rightarrow>
                       (Inl (CurrentsConnectionError ''Failed to connect to Currents API''),
                        w\<lparr>trace := t @ [Get g, Sleep 1, Get g, Sleep 2, Get g]\<rparr>))))
   \<and> length (calls_of (trace (snd (request (HTTPClient_init k b) net ep ps w)))) \<le>
       length (calls_of (trace w)) + 3
   \<and> max_retries (HTTPClient_init k b) = 3 \<and> retry_delay (HTTPClient_init k b) = 1
   \<and> retry_delay (HTTPClient_init k b) * 2 ^ (0::nat) = 1
   \<and> retry_delay (HTTPClient_init k b) * 2 ^ (1::nat) = 2
   \<and> kind (CurrentsConnectionError m) = ConnectionError"
proof -
  have "length (calls_of (trace (snd (request (HTTPClient_init k b) net ep ps w)))) \<le>
      length (calls_of (trace w)) + 3"
    using request_calls_bound[of "HTTPClient_init k b" net ep ps w]
    by (simp add: HTTPClient_init_def)
  then show ?thesis
    using request_three_attempts[of k b net ep ps w]
    by (simp add: HTTPClient_init_def error_ctor_defs)
qed

theorem request_retry_policy_witness:
  "request (client_http example_client) (\<lambda>t g. RequestException) ''/latest-news'' None world0 =
     (let g = \<lparr>call_url = ''https://api.example.com/v1/latest-news'',
               call_session_params = [(''apiKey'', PStr ''key'')], call_params = None,
               call_timeout = 30\<rparr>
      in (Inl (CurrentsConnectionError ''Failed to connect to Currents API''),
          \<lparr>trace = [Get g, Sleep 1, Get g, Sleep 2, Get g]\<rparr>))
   \<and> request (client_http example_client)
        (\<lambda>t g. if length (calls_of t) < 2 then RequestException
                else Response (ok_response (JObj [])))
        ''/latest-news'' None world0 =
     (let g = \<lparr>call_url = ''https://api.example.com/v1/latest-news'',
               call_session_params = [(''apiKey'', PStr ''key'')], call_params = None,
               call_timeout = 30\<rparr>
      in (Inr [], \<lparr>trace = [Get g, Sleep 1, Get g, Sleep 2, Get g]\<rparr>))
   \<and> request (client_http example_client)
        (\<lambda>t g. if t = [] then RequestException else Response (ok_response (JObj [])))
        ''/latest-news'' None world0 =
     (let g = \<lparr>call_url = ''https://api.example.com/v1/latest-news'',
               call_session_params = [(''apiKey'', PStr ''key'')], call_params = None,
               call_timeout = 30\<rparr>
      in (Inr [], \<lparr>trace = [Get g, Sleep 1, Get g]\<rparr>))
   \<and> request (client_http example_client)
        (\<lambda>t g. Response ((ok_response JNull)\<lparr>resp_status_code := 503\<rparr>))
        ''/latest-news'' None world0 =
     (let g = \<lparr>call_url = ''https://api.example.com/v1/latest-news'',
               call_session_params = [(''apiKey'', PStr ''key'')], call_params = None,
               call_timeout = 30\<rparr>
      in (Inl (CurrentsServerError ''API server error. Please try again later.''),
          \<lparr>trace = [Get g]\<rparr>))"
proof -
  have r: "rstrip_slash ''https://api.example.com/v1/'' = ''https://api.example.com/v1''"
    by (simp add: rstrip_slash_def)
  have h: "handle_response (ok_response (JObj [])) = Inr []"
    "handle_response ((ok_response JNull)\<lparr>resp_status_code := 503\<rparr>) =
       Inl (CurrentsServerError ''API server error. Please try again later.'')"
    by (simp_all add: handle_response_def ok_response_def raise_for_status_def
        parse_response_json_def handle_http_error_def http_code_defs raise_server_error_def
        ERROR_MESSAGES_server_error_def)
  have a: "request (client_http example_client) (\<lambda>t g. RequestException) ''/latest-news'' None
        world0 =
     (let g = \<lparr>call_url = ''https://api.example.com/v1/latest-news'',
               call_session_params = [(''apiKey'', PStr ''key'')], call_params = None,
               call_timeout = 30\<rparr>
      in (Inl (CurrentsConnectionError ''Failed to connect to Currents API''),
          \<lparr>trace = [Get g, Sleep 1, Get g, Sleep 2, Get g]\<rparr>))"
    using request_retry_policy[of "''key''" "''https://api.example.com/v1/''"
        "\<lambda>t g. RequestException" "''/latest-news''" None world0]
    by (simp add: example_client_def world0_def r Let_def)
  have b: "request (client_http example_client)
        (\<lambda>t g. if length (calls_of t) < 2 then RequestException
                else Response (ok_response (JObj [])))
        ''/latest-news'' None world0 =
     (let g = \<lparr>call_url = ''https://api.example.com/v1/latest-news'',
               call_session_params = [(''apiKey'', PStr ''key'')], call_params = None,
               call_timeout = 30\<rparr>
      in (Inr [], \<lparr>trace = [Get g, Sleep 1, Get g, Sleep 2, Get g]\<rparr>))"
    using request_retry_policy[of "''key''" "''https://api.example.com/v1/''"
        "\<lambda>t g. if length (calls_of t) < 2 then RequestException
                else Response (ok_response (JObj []))"
        "''/latest-news''" None world0]
    by (simp add: example_client_def world0_def r h Let_def)
  have c: "request (client_http example_client)
        (\<lambda>t g. if t = [] then RequestException else Response (ok_response (JObj [])))
        ''/latest-news'' None world0 =
     (let g = \<lparr>call_url = ''https://api.example.com/v1/latest-news'',
               call_session_params = [(''apiKey'', PStr ''key'')], call_params = None,
               call_timeout = 30\<rparr>
      in (Inr [], \<lparr>trace = [Get g, Sleep 1, Get g]\<rparr>))"
    using request_retry_policy[of "''key''" "''https://api.example.com/v1/''"
        "\<lambda>t g. if t = [] then RequestException else Response (ok_response (JObj []))"
        "''/latest-news''" None world0]
    by (simp add: example_client_def world0_def r h Let_def)
  have d: "request (client_http example_client)
        (\<lambda>t g. Response ((ok_response JNull)\<lparr>resp_status_code := 503\<rparr>))
        ''/latest-news'' None world0 =
     (let g = \<lparr>call_url = ''https://api.example.com/v1/latest-news'',
               call_session_params = [(''apiKey'', PStr ''key'')], call_params = None,
               call_timeout = 30\<rparr>
      in (Inl (CurrentsServerError ''API server error. Please try again later.''),
          \<lparr>trace = [Get g]\<rparr>))"
    using request_retry_policy[of "''key''" "''https://api.example.com/v1/''"
        "\<lambda>t g. Response ((ok_response JNull)\<lparr>resp_status_code := 503\<rparr>)"
        "''/latest-news''" None world0]
    by (simp add: example_client_def world0_def r h Let_def)
  from a b c d show ?thesis by (intro conjI)
qed

section \<open>Properties of the base URL\<close>

lemma dropWhile_replicate:
  "\<exists>n. xs = replicate n c @ dropWhile (\<lambda>x. x = c) xs"
proof (induction xs)
  case Nil
  show ?case by simp
next
  case (Cons x xs)
  then obtain n where n: "xs = replicate n c @ dropWhile (\<lambda>x. x = c) xs" ..
  show ?case
  proof (cases "x = c")
    case True
    with n have "x # xs = replicate (Suc n) c @ dropWhile (\<lambda>x. x = c) (x # xs)"
      by simp
    then show ?thesis ..
  next
    case False
    then have "x # xs = replicate 0 c @ dropWhile (\<lambda>x. x = c) (x # xs)"
      by simp
    then show ?thesis ..
  qed
qed

lemma rstrip_slash_decomp: "\<exists>n. b = rstrip_slash b @ replicate n (CHR ''/'')"
proof -
  from dropWhile_replicate[of "rev b" "CHR ''/''"]
  obtain n where h: "rev b = replicate n (CHR ''/'') @ dropWhile (\<lambda>x. x = CHR ''/'') (rev b)" ..
  have "rev (rev b) = rev (replicate n (CHR ''/'') @ dropWhile (\<lambda>x. x = CHR ''/'') (rev b))"
    by (rule arg_cong[OF h])
  then have "b = rstrip_slash b @ replicate n (CHR ''/'')"
    by (simp only: rev_rev_ident rev_append rev_replicate rstrip_slash_def)
  then show ?thesis ..
qed

lemma rstrip_slash_no_trailing: "rstrip_slash b = [] \<or> last (rstrip_slash b) \<noteq> CHR ''/''"
proof (cases "dropWhile (\<lambda>x. x = CHR ''/'') (rev b) = []")
  case True
  then show ?thesis by (simp add: rstrip_slash_def)
next
  case False
  then have "hd (dropWhile (\<lambda>x. x = CHR ''/'') (rev b)) \<noteq> CHR ''/''"
    by (rule hd_dropWhile)
  with False show ?thesis by (simp add: rstrip_slash_def last_rev)
qed

lemma rstrip_slash_snoc: "rstrip_slash (b @ ''/'') = rstrip_slash b"
  by (simp add: rstrip_slash_def)

lemma rstrip_slash_idem: "rstrip_slash (rstrip_slash b) = rstrip_slash b"
  by (simp add: rstrip_slash_def)

lemma dropWhile_replicate_append:
  "P c \<Longrightarrow> dropWhile P (replicate n c @ ys) = dropWhile P ys"
  by (induction n) simp_all

lemma rstrip_slash_replicate: "rstrip_slash (b @ replicate n (CHR ''/'')) = rstrip_slash b"
  by (simp add: rstrip_slash_def dropWhile_replicate_append)

text \<open>
  C10: the client keeps the base URL with every trailing slash removed: what is removed is
  only slashes, what is kept does not end in a slash, and stripping again changes nothing.
  A request makes at least one and at most three calls, and every one of them goes to the
  kept base URL followed by the endpoint, so base URLs that differ only in trailing slashes
  give the same client and the same requests.
\<close>

theorem base_url_normalised:
  "base_url (HTTPClient_init k b) = rstrip_slash b
   \<and> (\<exists>n. b = rstrip_slash b @ replicate n (CHR ''/''))
   \<and> (rstrip_slash b = [] \<or> last (rstrip_slash b) \<noteq> CHR ''/'')
   \<and> rstrip_slash (rstrip_slash b) = rstrip_slash b
   \<and> (\<exists>m. 1 \<le> m \<and> m \<le> 3
        \<and> calls_of (trace (snd (request (HTTPClient_init k b) net ep ps w))) =
            calls_of (trace w) @ replicate m
              \<lparr>call_url = rstrip_slash b @ ep, call_session_params = [(''apiKey'', PStr k)],
               call_params = ps, call_timeout = 30\<rparr>)
   \<and> HTTPClient_init k (b @ replicate n (CHR ''/'')) = HTTPClient_init k b
   \<and> request (HTTPClient_init k (b @ ''/'')) net ep ps w = request (HTTPClient_init k b) net ep ps w"
proof -
  have d: "HTTPClient_init k (b @ replicate n (CHR ''/'')) = HTTPClient_init k b"
    by (simp add: HTTPClient_init_def rstrip_slash_replicate)
  have e: "HTTPClient_init k (b @ ''/'') = HTTPClient_init k b"
    by (simp add: HTTPClient_init_def rstrip_slash_snoc)
  have f: "base_url (HTTPClient_init k b) = rstrip_slash b"
    by (simp add: HTTPClient_init_def)
  have g: "request (HTTPClient_init k (b @ ''/'')) net ep ps w =
      request (HTTPClient_init k b) net ep ps w"
    by (simp only: e)
  from f rstrip_slash_decomp[of b] rstrip_slash_no_trailing[of b] rstrip_slash_idem[of b]
    request_calls_count[of k b net ep ps w] d g
  show ?thesis by (intro conjI)
qed

theorem base_url_normalised_witness:
  "base_url (HTTPClient_init ''key'' ''https://api.example.com/v1///'') = ''https://api.example.com/v1''
   \<and> base_url (HTTPClient_init ''key'' ''https://api.example.com/v1'') = ''https://api.example.com/v1''
   \<and> base_url (HTTPClient_init ''key'' ''///'') = []
   \<and> calls_of (trace (snd (request (HTTPClient_init ''key'' ''https://api.example.com/v1///'')
        (\<lambda>t g. Response (ok_response (JObj []))) ''/latest-news'' None world0))) =
      [\<lparr>call_url = ''https://api.example.com/v1/latest-news'',
        call_session_params = [(''apiKey'', PStr ''key'')], call_params = None,
        call_timeout = 30\<rparr>]
   \<and> calls_of (trace (snd (request (HTTPClient_init ''key'' ''https://api.example.com/v1///'')
        (\<lambda>t g. RequestException) ''/latest-news'' None world0))) =
      replicate 3
        \<lparr>call_url = ''https://api.example.com/v1/latest-news'',
         call_session_params = [(''apiKey'', PStr ''key'')], call_params = None,
         call_timeout = 30\<rparr>
   \<and> request (HTTPClient_init ''key'' ''https://api.example.com/v1/'')
        (\<lambda>t g. Response (ok_response (JObj []))) ''/latest-news'' None world0 =
      request (HTTPClient_init ''key'' ''https://api.example.com/v1'')
        (\<lambda>t g. Response (ok_response (JObj []))) ''/latest-news'' None world0"
proof -
  have r: "rstrip_slash ''https://api.example.com/v1///'' = ''https://api.example.com/v1''"
    "rstrip_slash ''https://api.example.com/v1'' = ''https://api.example.com/v1''"
    "rstrip_slash ''///'' = []"
    by (simp_all add: rstrip_slash_def)
  have a: "base_url (HTTPClient_init ''key'' ''https://api.example.com/v1///'') =
      ''https://api.example.com/v1''"
    using base_url_normalised[of "''key''" "''https://api.example.com/v1///''"]
    by (simp add: r)
  have b: "base_url (HTTPClient_init ''key'' ''https://api.example.com/v1'') =
      ''https://api.example.com/v1''"
    using base_url_normalised[of "''key''" "''https://api.example.com/v1''"]
    by (simp add: r)
  have c: "base_url (HTTPClient_init ''key'' ''///'') = []"
    using base_url_normalised[of "''key''" "''///''"]
    by (simp add: r)
  have d: "calls_of (trace (snd (request (HTTPClient_init ''key'' ''https://api.example.com/v1///'')
        (\<lambda>t g. Response (ok_response (JObj []))) ''/latest-news'' None world0))) =
      [\<lparr>call_url = ''https://api.example.com/v1/latest-news'',
        call_session_params = [(''apiKey'', PStr ''key'')], call_params = None,
        call_timeout = 30\<rparr>]"
    by (simp add: request_three_attempts r Let_def world0_def)
  have e: "calls_of (trace (snd (request (HTTPClient_init ''key'' ''https://api.example.com/v1///'')
        (\<lambda>t g. RequestException) ''/latest-news'' None world0))) =
      replicate 3
        \<lparr>call_url = ''https://api.example.com/v1/latest-news'',
         call_session_params = [(''apiKey'', PStr ''key'')], call_params = None,
         call_timeout = 30\<rparr>"
    by (simp add: request_three_attempts r Let_def world0_def numeral_3_eq_3)
  have f: "request (HTTPClient_init ''key'' ''https://api.example.com/v1/'')
        (\<lambda>t g. Response (ok_response (JObj []))) ''/latest-news'' None world0 =
      request (HTTPClient_init ''key'' ''https://api.example.com/v1'')
        (\<lambda>t g. Response (ok_response (JObj []))) ''/latest-news'' None world0"
    using base_url_normalised[of "''key''" "''https://api.example.com/v1''"
        "\<lambda>t g. Response (ok_response (JObj []))" "''/latest-news''" None world0]
    by simp
  from a b c d e f show ?thesis by (intro conjI)
qed

section \<open>Properties of the exception family\<close>

lemma handle_http_error_status:
  "handle_http_error code r = Inl e \<Longrightarrow> status_code e = kind_status_code (kind e)"
  by (auto simp: handle_http_error_def raise_auth_error_def raise_validation_error_def
      raise_server_error_def raise_generic_error_def handle_rate_limit_error_def Let_def
      error_ctor_defs http_code_defs split: if_splits)

lemma handle_response_status:
  "handle_response r = Inl e \<Longrightarrow> status_code e = kind_status_code (kind e)"
  by (auto simp: handle_response_def parse_response_json_def error_ctor_defs
      dest: handle_http_error_status split: if_splits sum.splits option.splits json.splits)

lemma request_loop_status:
  "fst (request_loop c net g as w) = Inl e \<Longrightarrow> status_code e = kind_status_code (kind e)"
proof (induction as arbitrary: w)
  case Nil
  then show ?case by (auto simp: error_ctor_defs)
next
  case (Cons a as)
  then show ?case
    by (auto simp: session_get_def error_ctor_defs dest: handle_response_status
        split: net_result.splits if_splits)
qed

lemma request_status:
  "fst (request c net ep ps w) = Inl e \<Longrightarrow> status_code e = kind_status_code (kind e)"
  by (simp add: request_def Let_def request_loop_status)

lemma validate_keywords_kind:
  "validate_keywords kw = Inl e \<Longrightarrow> kind e = ValidationError \<and> status_code e = Some 400"
  by (auto simp: validate_keywords_def error_ctor_defs http_code_defs split: if_splits)

lemma to_news_response_status:
  assumes "fst (to_news_response P rw) = Inl (Currents e)"
    and "\<And>e'. fst rw = Inl e' \<Longrightarrow> status_code e' = kind_status_code (kind e')"
  shows "status_code e = kind_status_code (kind e)"
  using assms
  by (cases rw) (auto simp: to_news_response_def split: sum.splits)

lemma client_init_kind:
  "CurrentsClient_init getenv api_key url = Inl e \<Longrightarrow>
     kind e = AuthenticationError \<and> status_code e = Some 401"
  by (auto simp: CurrentsClient_init_def Let_def error_ctor_defs http_code_defs
      split: option.splits if_splits)

lemma get_latest_news_status:
  assumes "fst (get_latest_news P cl net lang limit w) = Inl (Currents e)"
  shows "status_code e = kind_status_code (kind e)"
proof (cases "validate_params lang limit None")
  case (Inl e')
  with assms have "e' = e" by (simp add: get_latest_news_def)
  with Inl show ?thesis using validate_params_kind by fastforce
next
  case (Inr u)
  with assms show ?thesis
    by (auto simp: get_latest_news_def intro: to_news_response_status request_status)
qed

lemma search_news_status:
  assumes "fst (search_news P cl net kw lang limit dm w) = Inl (Currents e)"
  shows "status_code e = kind_status_code (kind e)"
proof (cases "validate_params lang limit None")
  case (Inl e')
  with assms have "e' = e" by (simp add: search_news_def)
  with Inl show ?thesis using validate_params_kind by fastforce
next
  case vp: (Inr u)
  show ?thesis
  proof (cases "validate_keywords kw")
    case (Inl e')
    with vp assms have "e' = e" by (simp add: search_news_def)
    with Inl show ?thesis using validate_keywords_kind by fastforce
  next
    case (Inr u')
    with vp assms show ?thesis
      by (auto simp: search_news_def intro: to_news_response_status request_status)
  qed
qed

lemma get_category_news_status:
  assumes "fst (get_category_news P cl net cat' lang limit w) = Inl (Currents e)"
  shows "status_code e = kind_status_code (kind e)"
proof (cases "validate_params lang limit (Some cat')")
  case (Inl e')
  with assms have "e' = e" by (simp add: get_category_news_def)
  with Inl show ?thesis using validate_params_kind by fastforce
next
  case (Inr u)
  with assms show ?thesis
    by (auto simp: get_category_news_def intro: to_news_response_status request_status)
qed

text \<open>
  C9: the status code of an error is fixed by its class: 400 for
  \<open>CurrentsValidationError\<close> (also when validation of the parameters fails before any
  call), 401 for \<open>CurrentsAuthenticationError\<close> (also when construction fails for want of
  a key), 429 for \<open>CurrentsRateLimitError\<close>, 500 for \<open>CurrentsServerError\<close>, and none for
  \<open>CurrentsConnectionError\<close> and \<open>CurrentsResponseError\<close>. Every error of the family that a
  request or a public method raises carries the status code of its class.
\<close>

theorem status_code_by_kind:
  "status_code (CurrentsValidationError m f) = Some 400
   \<and> status_code (CurrentsAuthenticationError m) = Some 401
   \<and> status_code (CurrentsRateLimitError m ra) = Some 429
   \<and> status_code (CurrentsServerError m) = Some 500
   \<and> status_code (CurrentsConnectionError m) = None
   \<and> status_code (CurrentsResponseError m) = None
   \<and> (validate_params lang limit cat = Inl e \<longrightarrow>
        kind e = ValidationError \<and> status_code e = Some 400)
   \<and> (validate_keywords kw = Inl e \<longrightarrow> kind e = ValidationError \<and> status_code e = Some 400)
   \<and> (CurrentsClient_init getenv api_key url = Inl e \<longrightarrow>
        kind e = AuthenticationError \<and> status_code e = Some 401)
   \<and> (fst (request c net ep ps w) = Inl e \<longrightarrow> status_code e = kind_status_code (kind e))
   \<and> (fst (get_latest_news P cl net lang limit w) = Inl (Currents e) \<longrightarrow>
        status_code e = kind_status_code (kind e))
   \<and> (fst (search_news P cl net kw lang limit dm w) = Inl (Currents e) \<longrightarrow>
        status_code e = kind_status_code (kind e))
   \<and> (fst (get_category_news P cl net cat' lang limit w) = Inl (Currents e) \<longrightarrow>
        status_code e = kind_status_code (kind e))"
proof -
  have ctor: "status_code (CurrentsValidationError m f) = Some 400"
    "status_code (CurrentsAuthenticationError m) = Some 401"
    "status_code (CurrentsRateLimitError m ra) = Some 429"
    "status_code (CurrentsServerError m) = Some 500"
    "status_code (CurrentsConnectionError m) = None"
    "status_code (CurrentsResponseError m) = None"
    by (simp_all add: error_ctor_defs http_code_defs)
  show ?thesis
    using ctor validate_params_kind[of lang limit cat e] validate_keywords_kind[of kw e]
      client_init_kind[of getenv api_key url e] request_status[of c net ep ps w e]
      get_latest_news_status[of P cl net lang limit w e]
      search_news_status[of P cl net kw lang limit dm w e]
      get_category_news_status[of P cl net cat' lang limit w e]
    by blast
qed

theorem status_code_by_kind_witness:
  "validate_params ''xx'' 5 None =
     Inl (CurrentsValidationError ERROR_MESSAGES_invalid_language None)
   \<and> kind (CurrentsValidationError ERROR_MESSAGES_invalid_language None) = ValidationError
   \<and> status_code (CurrentsValidationError ERROR_MESSAGES_invalid_language None) = Some 400
   \<and> CurrentsClient_init Map.empty None DEFAULT_BASE_URL =
       Inl (CurrentsAuthenticationError ERROR_MESSAGES_invalid_api_key)
   \<and> status_code (CurrentsAuthenticationError ERROR_MESSAGES_invalid_api_key) = Some 401"
proof -
  have 1: "validate_params ''xx'' 5 None =
     Inl (CurrentsValidationError ERROR_MESSAGES_invalid_language None)"
    by (simp add: validate_params_def validate_language_def valid_languages_def)
  have 2: "CurrentsClient_init Map.empty None DEFAULT_BASE_URL =
       Inl (CurrentsAuthenticationError ERROR_MESSAGES_invalid_api_key)"
    by (simp add: CurrentsClient_init_def)
  from 1 2
    status_code_by_kind[where lang = "''xx''" and limit = 5 and cat = None
      and e = "CurrentsValidationError ERROR_MESSAGES_invalid_language None"]
    status_code_by_kind[where getenv = Map.empty and api_key = None and url = DEFAULT_BASE_URL
      and e = "CurrentsAuthenticationError ERROR_MESSAGES_invalid_api_key"]
  show ?thesis by blast
qed

section \<open>Properties of the response models\<close>

lemma errors_of_simps [simp]:
  "errors_of (Inl es) = es" "errors_of (Inr a) = []"
  by (simp_all add: errors_of_def)

lemma errors_of_ap: "errors_of (ap f x) = errors_of f @ errors_of x"
  by (cases f; cases x) simp_all

lemma isl_ap: "isl (ap f x) = (isl f \<or> isl x)"
  by (cases f; cases x) simp_all

lemma errors_of_at_loc:
  "errors_of (at_loc k r) = map (\<lambda>(loc, t). (k # loc, t)) (errors_of r)"
  by (cases r) (simp_all add: at_loc_def)

lemma isl_at_loc: "isl (at_loc k r) = isl r"
  by (cases r) (simp_all add: at_loc_def)

lemma errors_of_isl: "e \<in> set (errors_of r) \<Longrightarrow> r = Inl (errors_of r)"
  by (cases r) simp_all

lemma required_missing:
  "map_of d name = None \<Longrightarrow> errors_of (required v d name) = [([Key name], Missing)]"
  by (simp add: required_def)

lemma required_invalid:
  "map_of d name = Some j \<Longrightarrow> p j = None \<Longrightarrow>
     errors_of (required (prim p) d name) = [([Key name], Invalid)]"
  by (simp add: required_def prim_def at_loc_def)

lemma errors_of_article:
  "errors_of (NewsArticle_init P a) =
     errors_of (required (prim (str_validate P)) a ''id'') @
     errors_of (required (prim (str_validate P)) a ''title'') @
     errors_of (required (prim (str_validate P)) a ''description'') @
     errors_of (required (prim (http_url_validate P)) a ''url'') @
     errors_of (optional (prim (str_validate P)) a ''author'') @
     errors_of (optional (prim (str_validate P)) a ''image'') @
     errors_of (required (prim (str_validate P)) a ''language'') @
     errors_of (with_default [] (list_of (prim (str_validate P))) a ''category'') @
     errors_of (required (prim (datetime_validate P)) a ''published'')"
  by (simp only: NewsArticle_init_def errors_of_ap errors_of_simps append_Nil append_assoc)

lemma article_missing_field:
  assumes "f \<in> set required_article_fields" "map_of a f = None"
  shows "([Key f], Missing) \<in> set (errors_of (NewsArticle_init P a))"
proof -
  have m: "\<And>v. errors_of (required v a f) = [([Key f], Missing)]"
    using assms(2) by (rule required_missing)
  from assms(1) consider "f = ''id''" | "f = ''title''" | "f = ''description''" | "f = ''url''"
    | "f = ''language''" | "f = ''published''"
    unfolding required_article_fields_def by (simp only: list.set insert_iff empty_iff) blast
  then show ?thesis
  proof cases
    case 1
    with m[of "prim (str_validate P)"] show ?thesis
      by (simp only: errors_of_article set_append Un_iff list.set insert_iff) blast
  next
    case 2
    with m[of "prim (str_validate P)"] show ?thesis
      by (simp only: errors_of_article set_append Un_iff list.set insert_iff) blast
  next
    case 3
    with m[of "prim (str_validate P)"] show ?thesis
      by (simp only: errors_of_article set_append Un_iff list.set insert_iff) blast
  next
    case 4
    with m[of "prim (http_url_validate P)"] show ?thesis
      by (simp only: errors_of_article set_append Un_iff list.set insert_iff) blast
  next
    case 5
    with m[of "prim (str_validate P)"] show ?thesis
      by (simp only: errors_of_article set_append Un_iff list.set insert_iff) blast
  next
    case 6
    with m[of "prim (datetime_validate P)"] show ?thesis
      by (simp only: errors_of_article set_append Un_iff list.set insert_iff) blast
  qed
qed

lemma article_invalid_url:
  assumes "map_of a ''url'' = Some j" "http_url_validate P j = None"
  shows "([Key ''url''], Invalid) \<in> set (errors_of (NewsArticle_init P a))"
  using required_invalid[of a "''url''" j "http_url_validate P", OF assms]
  by (simp only: errors_of_article set_append Un_iff list.set insert_iff) blast

lemma article_invalid_published:
  assumes "map_of a ''published'' = Some j" "datetime_validate P j = None"
  shows "([Key ''published''], Invalid) \<in> set (errors_of (NewsArticle_init P a))"
  using required_invalid[of a "''published''" j "datetime_validate P", OF assms]
  by (simp only: errors_of_article set_append Un_iff list.set insert_iff) blast

lemma validate_items_error:
  "i < length xs \<Longrightarrow> (loc, t) \<in> set (errors_of (v (xs ! i))) \<Longrightarrow>
     (Index (k + i) # loc, t) \<in> set (errors_of (validate_items v k xs))"
proof (induction xs arbitrary: k i)
  case Nil
  then show ?case by simp
next
  case (Cons x xs)
  show ?case
  proof (cases i)
    case 0
    with Cons.prems show ?thesis
      by (force simp: errors_of_ap errors_of_at_loc)
  next
    case (Suc i')
    with Cons.prems have "(Index (Suc k + i') # loc, t) \<in> set (errors_of (validate_items v (Suc k) xs))"
      by (intro Cons.IH) simp_all
    with Suc show ?thesis by (simp add: errors_of_ap)
  qed
qed

lemma response_article_error:
  assumes "map_of d ''news'' = Some (JArr xs)" "i < length xs" "xs ! i = JObj a"
    and "(loc, t) \<in> set (errors_of (NewsArticle_init P a))"
  shows "(Key ''news'' # Index i # loc, t) \<in> set (errors_of (NewsResponse_init P d))"
proof -
  from assms(3,4) have "(loc, t) \<in> set (errors_of (NewsArticle_of P (xs ! i)))"
    by (simp add: NewsArticle_of_def)
  with assms(2)
  have "(Index (0 + i) # loc, t) \<in> set (errors_of (validate_items (NewsArticle_of P) 0 xs))"
    by (rule validate_items_error)
  with assms(1) show ?thesis
    by (force simp: NewsResponse_init_def errors_of_ap required_def errors_of_at_loc list_of_def)
qed

lemma isl_required_prim: "isl (required (prim p) d name) = (\<not> present_ok p d name)"
  by (simp add: required_def present_ok_def prim_def isl_at_loc split: option.splits)

lemma isl_optional_prim: "isl (optional (prim p) d name) = (\<not> optional_ok p d name)"
  by (simp add: optional_def optional_ok_def prim_def isl_at_loc isl_ap
      split: option.splits json.splits)

lemma isl_validate_items: "isl (validate_items v k xs) = (\<not> list_all (\<lambda>x. \<not> isl (v x)) xs)"
  by (induction xs arbitrary: k) (auto simp: isl_ap isl_at_loc)

lemma isl_category:
  "isl (with_default [] (list_of (prim (str_validate P))) d ''category'') = (\<not> category_ok P d)"
proof -
  have "(\<lambda>x. \<not> isl (prim (str_validate P) x)) = (\<lambda>y. str_validate P y \<noteq> None)"
    by (auto simp: prim_def split: option.splits)
  then show ?thesis
    by (simp add: with_default_def category_ok_def list_of_def isl_at_loc isl_validate_items
        split: option.splits json.splits)
qed

lemma isl_article: "isl (NewsArticle_of P j) = (\<not> article_well_formed P j)"
  by (cases j)
    (auto simp: NewsArticle_of_def article_well_formed_def NewsArticle_init_def isl_ap
      isl_required_prim isl_optional_prim isl_category)

lemma isl_required_news:
  "isl (required (list_of (NewsArticle_of P)) d ''news'') =
     (case map_of d ''news'' of
        Some (JArr xs) \<Rightarrow> \<not> list_all (article_well_formed P) xs
      | _ \<Rightarrow> True)"
proof -
  have "(\<lambda>x. \<not> isl (NewsArticle_of P x)) = article_well_formed P"
    by (simp add: isl_article)
  then show ?thesis
    by (simp add: required_def list_of_def isl_at_loc isl_validate_items
        split: option.splits json.splits)
qed

lemma isl_response: "isl (NewsResponse_init P d) = (\<not> response_well_formed P d)"
  by (auto simp: NewsResponse_init_def response_well_formed_def isl_ap isl_required_prim
      isl_required_news split: option.splits json.splits)

lemma validate_items_length: "validate_items v k xs = Inr ys \<Longrightarrow> length ys = length xs"
proof (induction xs arbitrary: k ys)
  case Nil
  then show ?case by simp
next
  case (Cons x xs)
  then show ?case
    by (cases "v x"; cases "validate_items v (Suc k) xs") (auto simp: at_loc_def)
qed

lemma response_news_length:
  assumes "NewsResponse_init P d = Inr r" "map_of d ''news'' = Some (JArr xs)"
  shows "length (news r) = length xs"
proof -
  let ?s = "required (prim (str_validate P)) d ''status''"
  let ?n = "validate_items (NewsArticle_of P) 0 xs"
  from assms have eq: "ap (ap (Inr NewsResponse_make) ?s) (at_loc (Key ''news'') ?n) = Inr r"
    by (simp add: NewsResponse_init_def required_def list_of_def)
  then obtain st ns where "?s = Inr st" "?n = Inr ns"
    by (cases ?s; cases ?n) (auto simp: at_loc_def)
  with eq have "r = NewsResponse_make st ns" "length ns = length xs"
    by (auto simp: at_loc_def dest: validate_items_length)
  then show ?thesis by (simp add: NewsResponse_make_def)
qed

lemma response_error_raised:
  assumes "(loc, t) \<in> set (errors_of (NewsResponse_init P d))"
  shows "\<exists>es. NewsResponse_init P d = Inl es \<and> (loc, t) \<in> set es \<and>
           to_news_response P (Inr d, w) = (Inl (PydanticValidationError es), w) \<and>
           \<not> is_currents_validation_error (fst (to_news_response P (Inr d, w)))"
proof (cases "NewsResponse_init P d")
  case (Inl es)
  with assms show ?thesis by (simp add: to_news_response_def)
next
  case (Inr r)
  with assms show ?thesis by simp
qed

text \<open>
  C4 (as the code has it): when an element of the \<open>news\<close> array lacks one of the fields
  id, title, description, url, language, published, or its url or published value is
  rejected by the library's validator, building the response raises the schema library's
  own \<open>ValidationError\<close>, which lists the location of that field; this error is not a
  \<open>CurrentsValidationError\<close>. Building the response succeeds exactly on the well-formed
  bodies, then gives one article per element of the array, and never touches the world.
\<close>

theorem response_mapper_errors:
  "(map_of d ''news'' = Some (JArr xs) \<and> i < length xs \<and> xs ! i = JObj a \<and>
      ((f \<in> set required_article_fields \<and> map_of a f = None \<and> t = Missing) \<or>
       (f = ''url'' \<and> (\<exists>j. map_of a f = Some j \<and> http_url_validate P j = None) \<and> t = Invalid) \<or>
       (f = ''published'' \<and> (\<exists>j. map_of a f = Some j \<and> datetime_validate P j = None) \<and>
          t = Invalid))
    \<longrightarrow> (\<exists>es. NewsResponse_init P d = Inl es \<and>
            ([Key ''news'', Index i, Key f], t) \<in> set es \<and>
            to_news_response P (Inr d, w) = (Inl (PydanticValidationError es), w) \<and>
            \<not> is_currents_validation_error (fst (to_news_response P (Inr d, w)))))
   \<and> ((\<exists>r. NewsResponse_init P d = Inr r) \<longleftrightarrow> response_well_formed P d)
   \<and> (\<forall>r. NewsResponse_init P d = Inr r \<and> map_of d ''news'' = Some (JArr xs) \<longrightarrow>
         length (news r) = length xs \<and> to_news_response P (Inr d, w) = (Inr r, w))"
proof (intro conjI impI allI)
  assume h: "map_of d ''news'' = Some (JArr xs) \<and> i < length xs \<and> xs ! i = JObj a \<and>
      ((f \<in> set required_article_fields \<and> map_of a f = None \<and> t = Missing) \<or>
       (f = ''url'' \<and> (\<exists>j. map_of a f = Some j \<and> http_url_validate P j = None) \<and> t = Invalid) \<or>
       (f = ''published'' \<and> (\<exists>j. map_of a f = Some j \<and> datetime_validate P j = None) \<and>
          t = Invalid))"
  then have "([Key f], t) \<in> set (errors_of (NewsArticle_init P a))"
    using article_missing_field[of f a P] article_invalid_url[of a _ P]
      article_invalid_published[of a _ P]
    by blast
  with h have "(Key ''news'' # Index i # [Key f], t) \<in> set (errors_of (NewsResponse_init P d))"
    by (intro response_article_error) blast+
  then show "\<exists>es. NewsResponse_init P d = Inl es \<and>
            ([Key ''news'', Index i, Key f], t) \<in> set es \<and>
            to_news_response P (Inr d, w) = (Inl (PydanticValidationError es), w) \<and>
            \<not> is_currents_validation_error (fst (to_news_response P (Inr d, w)))"
    by (rule response_error_raised)
next
  show "(\<exists>r. NewsResponse_init P d = Inr r) \<longleftrightarrow> response_well_formed P d"
    using isl_response[of P d] by (cases "NewsResponse_init P d") auto
next
  fix r
  assume "NewsResponse_init P d = Inr r \<and> map_of d ''news'' = Some (JArr xs)"
  then show "length (news r) = length xs"
    using response_news_length by blast
next
  fix r
  assume "NewsResponse_init P d = Inr r \<and> map_of d ''news'' = Some (JArr xs)"
  then show "to_news_response P (Inr d, w) = (Inr r, w)"
    by (simp add: to_news_response_def)
qed

lemma example_not_well_formed:
  "NewsResponse_init example_pydantic (news_body [JObj article_fields, JObj article_fields_no_id]) =
     Inl [([Key ''news'', Index 1, Key ''id''], Missing)]"
  by code_simp

lemma example_well_formed:
  "response_well_formed example_pydantic (news_body [JObj article_fields])"
  by code_simp

theorem response_mapper_errors_witness:
  "(\<exists>es. NewsResponse_init example_pydantic
           (news_body [JObj article_fields, JObj article_fields_no_id]) = Inl es \<and>
         ([Key ''news'', Index 1, Key ''id''], Missing) \<in> set es \<and>
         to_news_response example_pydantic
           (Inr (news_body [JObj article_fields, JObj article_fields_no_id]), world0) =
           (Inl (PydanticValidationError es), world0))
   \<and> (\<exists>es. NewsResponse_init example_pydantic
           (news_body [JObj ((''url'', JStr ''not-a-url'') # article_fields)]) = Inl es \<and>
         ([Key ''news'', Index 0, Key ''url''], Invalid) \<in> set es)
   \<and> (\<exists>r. NewsResponse_init example_pydantic (news_body [JObj article_fields]) = Inr r \<and>
          length (news r) = 1)"
proof -
  let ?d = "news_body [JObj article_fields, JObj article_fields_no_id]"
  let ?xs = "[JObj article_fields, JObj article_fields_no_id]"
  have h: "map_of ?d ''news'' = Some (JArr ?xs)" "(1::nat) < length ?xs"
    "?xs ! 1 = JObj article_fields_no_id" "''id'' \<in> set required_article_fields"
    "map_of article_fields_no_id ''id'' = None"
    by (simp_all add: news_body_def required_article_fields_def article_fields_no_id_def)
  from h response_mapper_errors[of ?d ?xs 1 article_fields_no_id "''id''" Missing example_pydantic
      world0]
  have a: "\<exists>es. NewsResponse_init example_pydantic ?d = Inl es \<and>
         ([Key ''news'', Index 1, Key ''id''], Missing) \<in> set es \<and>
         to_news_response example_pydantic (Inr ?d, world0) =
           (Inl (PydanticValidationError es), world0)"
    by blast
  let ?e = "news_body [JObj article_fields]"
  have g: "map_of ?e ''news'' = Some (JArr [JObj article_fields])"
    by (simp add: news_body_def)
  from example_well_formed g
    response_mapper_errors[of ?e "[JObj article_fields]" 0 "[]" "[]" Missing example_pydantic world0]
  have b: "\<exists>r. NewsResponse_init example_pydantic ?e = Inr r \<and> length (news r) = 1"
    by fastforce
  let ?u = "news_body [JObj ((''url'', JStr ''not-a-url'') # article_fields)]"
  let ?us = "[JObj ((''url'', JStr ''not-a-url'') # article_fields)]"
  have k: "map_of ?u ''news'' = Some (JArr ?us)" "(0::nat) < length ?us"
    "?us ! 0 = JObj ((''url'', JStr ''not-a-url'') # article_fields)"
    "map_of ((''url'', JStr ''not-a-url'') # article_fields) ''url'' = Some (JStr ''not-a-url'')"
    "http_url_validate example_pydantic (JStr ''not-a-url'') = None"
    by (simp_all add: news_body_def example_pydantic_def example_http_url_def)
  from k response_mapper_errors[of ?u ?us 0 "(''url'', JStr ''not-a-url'') # article_fields"
      "''url''" Invalid example_pydantic world0]
  have c: "\<exists>es. NewsResponse_init example_pydantic ?u = Inl es \<and>
         ([Key ''news'', Index 0, Key ''url''], Invalid) \<in> set es"
    by blast
  from a c b show ?thesis by (intro conjI)
qed

text \<open>
  C4 as stated fails: a 200 response whose only article lacks \<open>id\<close> makes
  \<open>get_latest_news\<close> raise the schema library's \<open>ValidationError\<close>, not a validation error of
  the client's family.
\<close>

theorem response_mapper_not_family_error:
  "fst (get_latest_news example_pydantic example_client
          (\<lambda>n g. Response (ok_response (JObj (news_body [JObj article_fields_no_id]))))
          ''en'' 5 world0) =
     Inl (PydanticValidationError [([Key ''news'', Index 0, Key ''id''], Missing)])
   \<and> \<not> is_currents_validation_error
         (fst (get_latest_news example_pydantic example_client
                (\<lambda>n g. Response (ok_response (JObj (news_body [JObj article_fields_no_id]))))
                ''en'' 5 world0))"
proof -
  have v: "validate_params ''en'' 5 None = Inr ()"
    by (simp add: validate_params_cases valid_languages_def)
  have r: "fst (request (client_http example_client)
          (\<lambda>n g. Response (ok_response (JObj (news_body [JObj article_fields_no_id]))))
          LATEST_NEWS_ENDPOINT (Some [(''language'', PStr ''en''), (''limit'', PInt 5)]) world0) =
       Inr (news_body [JObj article_fields_no_id])"
    by (simp add: example_client_def request_three_attempts Let_def handle_response_def
        ok_response_def raise_for_status_def parse_response_json_def)
  have n: "NewsResponse_init example_pydantic (news_body [JObj article_fields_no_id]) =
       Inl [([Key ''news'', Index 0, Key ''id''], Missing)]"
    by code_simp
  from r obtain w' where r': "request (client_http example_client)
          (\<lambda>n g. Response (ok_response (JObj (news_body [JObj article_fields_no_id]))))
          LATEST_NEWS_ENDPOINT (Some [(''language'', PStr ''en''), (''limit'', PInt 5)]) world0 =
       (Inr (news_body [JObj article_fields_no_id]), w')"
    by (metis prod.collapse)
  have "fst (get_latest_news example_pydantic example_client
          (\<lambda>n g. Response (ok_response (JObj (news_body [JObj article_fields_no_id]))))
          ''en'' 5 world0) =
     Inl (PydanticValidationError [([Key ''news'', Index 0, Key ''id''], Missing)])"
    by (simp add: get_latest_news_def v r' to_news_response_def n)
  then show ?thesis by simp
qed

end
